theory Spec2Isabelle
  imports Complex_Main
begin

section \<open>The in-memory repository store of TutorEase (server/storage.ts, class MemStorage)\<close>

text \<open>
  The store keeps ten collections, each a JavaScript \<open>Map<string, Entity>\<close>. Its methods
  build and merge entities with object spread only, which acts on whatever own properties
  an object carries at run time (the route layer hands request bodies to the update methods
  unchecked), so an entity is modelled as a finite map from property names to JavaScript
  values rather than as one record type per table.

  Every method is \<open>async\<close> but never awaits anything outside the store; it is modelled as a
  function from the store to its result and the store after the call. The two sources of
  outside input, \<open>randomUUID()\<close> and \<open>new Date()\<close>, are arguments of the method that calls
  them: \<open>uuid\<close> is the string \<open>randomUUID()\<close> returned and \<open>now\<close> the instant (milliseconds
  since the epoch) \<open>new Date()\<close> read.

  Modelled are the constructor with its seed data, the get, create, update and delete
  methods of all ten collections, \<open>bulkCreateAttendance\<close>, \<open>getFeesByStudent\<close>,
  \<open>getFeesByMonth\<close> and \<open>getAdminDashboardStats\<close>. The other filters and listings of
  the class are not needed below and are left out.
\<close>

subsection \<open>JavaScript values and objects\<close>

datatype jsval =
    JUndefined
  | JNull
  | JBool bool
  | JNum rat
  | JStr string
  | JDate int
  | JArr "jsval list"
  | JObj "(string \<times> jsval) list"

type_synonym obj = "string \<rightharpoonup> jsval"

text \<open>Reading a property: \<open>o.k\<close> is \<open>undefined\<close> when \<open>o\<close> has no property \<open>k\<close>.\<close>

definition getprop :: "obj \<Rightarrow> string \<Rightarrow> jsval" where
  "getprop ob k = (case ob k of None \<Rightarrow> JUndefined | Some v \<Rightarrow> v)"

text \<open>
  The spread \<open>{...a, ...b}\<close> is \<open>a ++ b\<close>: every property of \<open>b\<close> replaces that of \<open>a\<close>, the
  others of \<open>a\<close> stay. The literal \<open>{...a, k: v}\<close> is \<open>a(k \<mapsto> v)\<close>.
\<close>

subsection \<open>Numbers, parseFloat and toFixed\<close>

text \<open>
  A JavaScript number is \<open>NaN\<close>, an infinity or a finite value. Finite values are kept
  exact, as rationals: the rounding of IEEE doubles to 53 bits, overflow to an infinity and
  the sign of zero are not modelled. Sums and quotients below are therefore the exact ones.
\<close>

datatype number = NaN | PosInfinity | NegInfinity | Fin rat

text \<open>The \<open>+\<close> of two numbers.\<close>

fun number_add :: "number \<Rightarrow> number \<Rightarrow> number" where
  "number_add NaN y = NaN"
| "number_add x NaN = NaN"
| "number_add PosInfinity NegInfinity = NaN"
| "number_add NegInfinity PosInfinity = NaN"
| "number_add PosInfinity y = PosInfinity"
| "number_add x PosInfinity = PosInfinity"
| "number_add NegInfinity y = NegInfinity"
| "number_add x NegInfinity = NegInfinity"
| "number_add (Fin a) (Fin b) = Fin (a + b)"

text \<open>
  \<open>parseFloat(string)\<close>: leading white space is dropped, then the longest prefix that is a
  decimal literal is read (an optional sign, then \<open>Infinity\<close>, or digits with an optional
  fraction and an optional exponent); without such a prefix the result is \<open>NaN\<close>. Strings
  are byte sequences here, so only the white space characters of ASCII are recognised.
\<close>

definition isStrWhiteSpaceChar :: "char \<Rightarrow> bool" where
  "isStrWhiteSpaceChar c = (c \<in> set [CHR 0x09, CHR 0x0A, CHR 0x0B, CHR 0x0C, CHR 0x0D, CHR '' ''])"

definition isDecimalDigit :: "char \<Rightarrow> bool" where
  "isDecimalDigit c = (48 \<le> (of_char c :: nat) \<and> (of_char c :: nat) \<le> 57)"

definition digitValue :: "char \<Rightarrow> nat" where
  "digitValue c = of_char c - 48"

definition decimalValue :: "string \<Rightarrow> nat" where
  "decimalValue ds = foldl (\<lambda>n c. 10 * n + digitValue c) 0 ds"

definition exponentPart :: "string \<Rightarrow> int" where
  "exponentPart r =
     (case r of
        [] \<Rightarrow> 0
      | c # r' \<Rightarrow>
          if c = CHR ''e'' \<or> c = CHR ''E'' then
            (let (neg, d) = (case r' of
                               [] \<Rightarrow> (False, r')
                             | x # d' \<Rightarrow> if x = CHR ''-'' then (True, d')
                                         else if x = CHR ''+'' then (False, d') else (False, r'));
                 ds = takeWhile isDecimalDigit d
             in if ds = [] then 0
                else if neg then - int (decimalValue ds) else int (decimalValue ds))
          else 0)"

definition parseFloat :: "string \<Rightarrow> number" where
  "parseFloat inputString =
     (let trimmed = dropWhile isStrWhiteSpaceChar inputString;
          (neg, u) = (case trimmed of
                        [] \<Rightarrow> (False, trimmed)
                      | x # u' \<Rightarrow> if x = CHR ''-'' then (True, u')
                                  else if x = CHR ''+'' then (False, u') else (False, trimmed))
      in if take 8 u = ''Infinity'' then (if neg then NegInfinity else PosInfinity)
         else
           (let ip = takeWhile isDecimalDigit u;
                r1 = dropWhile isDecimalDigit u;
                (fp, r2) = (case r1 of
                              [] \<Rightarrow> ([], r1)
                            | x # r1' \<Rightarrow> if x = CHR ''.''
                                then (takeWhile isDecimalDigit r1', dropWhile isDecimalDigit r1')
                                else ([], r1))
            in if ip = [] \<and> fp = [] then NaN
               else
                 (let mv = (of_nat (decimalValue ip) + of_nat (decimalValue fp) / 10 ^ length fp)
                             * 10 powi exponentPart r2
                  in Fin (if neg then - mv else mv))))"

text \<open>
  \<open>parseFloat\<close> applies \<open>ToString\<close> to its argument first. A string is itself; a finite
  number prints as a literal that reads back as the same number; an array prints its
  elements joined by commas, and no comma is part of a literal, so the first element
  decides; \<open>undefined\<close>, \<open>null\<close>, booleans, dates and plain objects print as text that
  starts no literal.
\<close>

fun parseFloatArg :: "jsval \<Rightarrow> number" where
  "parseFloatArg (JStr s) = parseFloat s"
| "parseFloatArg (JNum r) = Fin r"
| "parseFloatArg (JArr (x # xs)) = parseFloatArg x"
| "parseFloatArg v = NaN"

text \<open>Truthiness, as \<open>filter(user => user.isActive)\<close> tests it.\<close>

fun ToBoolean :: "jsval \<Rightarrow> bool" where
  "ToBoolean JUndefined = False"
| "ToBoolean JNull = False"
| "ToBoolean (JBool b) = b"
| "ToBoolean (JNum r) = (r \<noteq> 0)"
| "ToBoolean (JStr s) = (s \<noteq> [])"
| "ToBoolean v = True"

text \<open>
  \<open>x.toFixed(1)\<close> for a finite \<open>x\<close> below \<open>10^21\<close> in magnitude (beyond it JavaScript
  switches to exponent notation; the one call site passes a percentage): with \<open>n\<close> the
  integer nearest to \<open>10 x\<close>, the larger one on a tie, the digits of \<open>n\<close>, padded to two
  digits, with a point before the last.
\<close>

definition digitChar :: "nat \<Rightarrow> char" where
  "digitChar d = char_of (48 + d)"

fun decimalDigits :: "nat \<Rightarrow> string" where
  "decimalDigits n = (if n < 10 then [digitChar n] else decimalDigits (n div 10) @ [digitChar (n mod 10)])"

declare decimalDigits.simps [simp del]

definition toFixed1 :: "rat \<Rightarrow> string" where
  "toFixed1 x =
     (let (s, x) = (if x < 0 then (''-'', - x) else ('''', x));
          n = nat \<lfloor>x * 10 + 1 / 2\<rfloor>;
          m = decimalDigits n;
          m = (if length m \<le> 1 then replicate (2 - length m) CHR ''0'' @ m else m);
          k = length m
      in s @ take (k - 1) m @ ''.'' @ drop (k - 1) m)"


subsection \<open>The JavaScript Map: insertion-ordered, one entry per key\<close>

type_synonym 'v jsmap = "(string \<times> 'v) list"

definition Map_get :: "string \<Rightarrow> 'v jsmap \<Rightarrow> 'v option" where
  "Map_get k m = map_of m k"

definition Map_has :: "string \<Rightarrow> 'v jsmap \<Rightarrow> bool" where
  "Map_has k m = (k \<in> set (map fst m))"

text \<open>\<open>set\<close> keeps the position of a key that is present and appends a new key.\<close>

fun Map_set :: "string \<Rightarrow> 'v \<Rightarrow> 'v jsmap \<Rightarrow> 'v jsmap" where
  "Map_set k v [] = [(k, v)]"
| "Map_set k v ((k', v') # m) = (if k' = k then (k, v) # m else (k', v') # Map_set k v m)"

definition Map_delete :: "string \<Rightarrow> 'v jsmap \<Rightarrow> 'v jsmap" where
  "Map_delete k m = filter (\<lambda>e. fst e \<noteq> k) m"

text \<open>\<open>Array.from(m.values())\<close>: the values in insertion order.\<close>

definition Map_values :: "'v jsmap \<Rightarrow> 'v list" where
  "Map_values m = map snd m"

subsection \<open>The store\<close>

record MemStorage =
  users :: "obj jsmap"
  students :: "obj jsmap"
  classes :: "obj jsmap"
  attendance :: "obj jsmap"
  fees :: "obj jsmap"
  homework :: "obj jsmap"
  homeworkSubmissions :: "obj jsmap"
  announcements :: "obj jsmap"
  systemLogs :: "obj jsmap"
  systemSettings :: "obj jsmap"

subsection \<open>Users\<close>

definition getUser :: "string \<Rightarrow> MemStorage \<Rightarrow> obj option" where
  "getUser id' s = Map_get id' (users s)"

text \<open>
  The class body defines \<open>createUser\<close> twice. A later method definition replaces an earlier
  one of the same name, so the second (under "Admin-specific methods") is the one that
  runs; the first is kept here under the name \<open>createUser_shadowed\<close>.
\<close>

definition createUser_shadowed :: "string \<Rightarrow> int \<Rightarrow> obj \<Rightarrow> MemStorage \<Rightarrow> obj \<times> MemStorage" where
  "createUser_shadowed uuid now user s =
     (let newUser = user(''id'' \<mapsto> JStr uuid, ''createdAt'' \<mapsto> JDate now)
      in (newUser, s\<lparr>users := Map_set uuid newUser (users s)\<rparr>))"

definition createUser :: "string \<Rightarrow> int \<Rightarrow> obj \<Rightarrow> MemStorage \<Rightarrow> obj \<times> MemStorage" where
  "createUser uuid now user s =
     (let newUser = user(''id'' \<mapsto> JStr uuid, ''isActive'' \<mapsto> JBool True,
                         ''lastLogin'' \<mapsto> JNull, ''createdAt'' \<mapsto> JDate now)
      in (newUser, s\<lparr>users := Map_set uuid newUser (users s)\<rparr>))"

definition updateUser :: "string \<Rightarrow> obj \<Rightarrow> MemStorage \<Rightarrow> obj option \<times> MemStorage" where
  "updateUser id' user s =
     (case Map_get id' (users s) of
        None \<Rightarrow> (None, s)
      | Some existing \<Rightarrow>
          (let updated = existing ++ user
           in (Some updated, s\<lparr>users := Map_set id' updated (users s)\<rparr>)))"

definition updateUserStatus :: "string \<Rightarrow> jsval \<Rightarrow> MemStorage \<Rightarrow> obj option \<times> MemStorage" where
  "updateUserStatus id' isActive s =
     (case Map_get id' (users s) of
        None \<Rightarrow> (None, s)
      | Some existing \<Rightarrow>
          (let updated = existing(''isActive'' \<mapsto> isActive)
           in (Some updated, s\<lparr>users := Map_set id' updated (users s)\<rparr>)))"

definition deleteUser :: "string \<Rightarrow> MemStorage \<Rightarrow> bool \<times> MemStorage" where
  "deleteUser id' s = (Map_has id' (users s), s\<lparr>users := Map_delete id' (users s)\<rparr>)"

subsection \<open>Students\<close>

definition getStudent :: "string \<Rightarrow> MemStorage \<Rightarrow> obj option" where
  "getStudent id' s = Map_get id' (students s)"

definition createStudent :: "string \<Rightarrow> int \<Rightarrow> obj \<Rightarrow> MemStorage \<Rightarrow> obj \<times> MemStorage" where
  "createStudent uuid now student s =
     (let newStudent = student(''id'' \<mapsto> JStr uuid, ''createdAt'' \<mapsto> JDate now)
      in (newStudent, s\<lparr>students := Map_set uuid newStudent (students s)\<rparr>))"

definition updateStudent :: "string \<Rightarrow> obj \<Rightarrow> MemStorage \<Rightarrow> obj option \<times> MemStorage" where
  "updateStudent id' student s =
     (case Map_get id' (students s) of
        None \<Rightarrow> (None, s)
      | Some existing \<Rightarrow>
          (let updated = existing ++ student
           in (Some updated, s\<lparr>students := Map_set id' updated (students s)\<rparr>)))"

definition deleteStudent :: "string \<Rightarrow> MemStorage \<Rightarrow> bool \<times> MemStorage" where
  "deleteStudent id' s = (Map_has id' (students s), s\<lparr>students := Map_delete id' (students s)\<rparr>)"

subsection \<open>Classes\<close>

definition getClass :: "string \<Rightarrow> MemStorage \<Rightarrow> obj option" where
  "getClass id' s = Map_get id' (classes s)"

definition createClass :: "string \<Rightarrow> int \<Rightarrow> obj \<Rightarrow> MemStorage \<Rightarrow> obj \<times> MemStorage" where
  "createClass uuid now classData s =
     (let newClass = classData(''id'' \<mapsto> JStr uuid, ''createdAt'' \<mapsto> JDate now)
      in (newClass, s\<lparr>classes := Map_set uuid newClass (classes s)\<rparr>))"

definition updateClass :: "string \<Rightarrow> obj \<Rightarrow> MemStorage \<Rightarrow> obj option \<times> MemStorage" where
  "updateClass id' classData s =
     (case Map_get id' (classes s) of
        None \<Rightarrow> (None, s)
      | Some existing \<Rightarrow>
          (let updated = existing ++ classData
           in (Some updated, s\<lparr>classes := Map_set id' updated (classes s)\<rparr>)))"

definition deleteClass :: "string \<Rightarrow> MemStorage \<Rightarrow> bool \<times> MemStorage" where
  "deleteClass id' s = (Map_has id' (classes s), s\<lparr>classes := Map_delete id' (classes s)\<rparr>)"

subsection \<open>Attendance\<close>

definition getAttendance :: "string \<Rightarrow> MemStorage \<Rightarrow> obj option" where
  "getAttendance id' s = Map_get id' (attendance s)"

definition createAttendance :: "string \<Rightarrow> int \<Rightarrow> obj \<Rightarrow> MemStorage \<Rightarrow> obj \<times> MemStorage" where
  "createAttendance uuid now att s =
     (let newAttendance = att(''id'' \<mapsto> JStr uuid, ''createdAt'' \<mapsto> JDate now)
      in (newAttendance, s\<lparr>attendance := Map_set uuid newAttendance (attendance s)\<rparr>))"

definition updateAttendance :: "string \<Rightarrow> obj \<Rightarrow> MemStorage \<Rightarrow> obj option \<times> MemStorage" where
  "updateAttendance id' att s =
     (case Map_get id' (attendance s) of
        None \<Rightarrow> (None, s)
      | Some existing \<Rightarrow>
          (let updated = existing ++ att
           in (Some updated, s\<lparr>attendance := Map_set id' updated (attendance s)\<rparr>)))"

text \<open>
  \<open>bulkCreateAttendance\<close> loops over the input and awaits \<open>createAttendance\<close> for each
  element, pushing the result. The \<open>k\<close>-th pass through the loop body gets the identifier
  \<open>uuids k\<close> and the clock reading \<open>clock k\<close>.
\<close>

fun bulkCreateAttendance_loop ::
  "(nat \<Rightarrow> string) \<Rightarrow> (nat \<Rightarrow> int) \<Rightarrow> nat \<Rightarrow> obj list \<Rightarrow> obj list \<Rightarrow> MemStorage
     \<Rightarrow> obj list \<times> MemStorage" where
  "bulkCreateAttendance_loop uuids clock k [] results s = (results, s)"
| "bulkCreateAttendance_loop uuids clock k (att # rest) results s =
     (case createAttendance (uuids k) (clock k) att s of
        (created, s') \<Rightarrow> bulkCreateAttendance_loop uuids clock (Suc k) rest (results @ [created]) s')"

definition bulkCreateAttendance ::
  "(nat \<Rightarrow> string) \<Rightarrow> (nat \<Rightarrow> int) \<Rightarrow> obj list \<Rightarrow> MemStorage \<Rightarrow> obj list \<times> MemStorage" where
  "bulkCreateAttendance uuids clock attendanceList s =
     bulkCreateAttendance_loop uuids clock 0 attendanceList [] s"

text \<open>
  A name, used in the proofs, for the record that pass \<open>k\<close> of the loop makes of the
  input \<open>a\<close>.
\<close>

definition stamped :: "(nat \<Rightarrow> string) \<Rightarrow> (nat \<Rightarrow> int) \<Rightarrow> nat \<Rightarrow> obj \<Rightarrow> obj" where
  "stamped uuids clock k a = a(''id'' \<mapsto> JStr (uuids k), ''createdAt'' \<mapsto> JDate (clock k))"

subsection \<open>Fees\<close>

definition getFee :: "string \<Rightarrow> MemStorage \<Rightarrow> obj option" where
  "getFee id' s = Map_get id' (fees s)"

definition getFeesByStudent :: "string \<Rightarrow> MemStorage \<Rightarrow> obj list" where
  "getFeesByStudent studentId s =
     filter (\<lambda>fee. getprop fee ''studentId'' = JStr studentId) (Map_values (fees s))"


definition createFee :: "string \<Rightarrow> int \<Rightarrow> obj \<Rightarrow> MemStorage \<Rightarrow> obj \<times> MemStorage" where
  "createFee uuid now fee s =
     (let newFee = fee(''id'' \<mapsto> JStr uuid, ''createdAt'' \<mapsto> JDate now)
      in (newFee, s\<lparr>fees := Map_set uuid newFee (fees s)\<rparr>))"

definition updateFee :: "string \<Rightarrow> obj \<Rightarrow> MemStorage \<Rightarrow> obj option \<times> MemStorage" where
  "updateFee id' fee s =
     (case Map_get id' (fees s) of
        None \<Rightarrow> (None, s)
      | Some existing \<Rightarrow>
          (let updated = existing ++ fee
           in (Some updated, s\<lparr>fees := Map_set id' updated (fees s)\<rparr>)))"

definition deleteFee :: "string \<Rightarrow> MemStorage \<Rightarrow> bool \<times> MemStorage" where
  "deleteFee id' s = (Map_has id' (fees s), s\<lparr>fees := Map_delete id' (fees s)\<rparr>)"

subsection \<open>Homework\<close>

definition getHomework :: "string \<Rightarrow> MemStorage \<Rightarrow> obj option" where
  "getHomework id' s = Map_get id' (homework s)"

definition createHomework :: "string \<Rightarrow> int \<Rightarrow> obj \<Rightarrow> MemStorage \<Rightarrow> obj \<times> MemStorage" where
  "createHomework uuid now hw s =
     (let newHomework = hw(''id'' \<mapsto> JStr uuid, ''assignedDate'' \<mapsto> JDate now)
      in (newHomework, s\<lparr>homework := Map_set uuid newHomework (homework s)\<rparr>))"

definition updateHomework :: "string \<Rightarrow> obj \<Rightarrow> MemStorage \<Rightarrow> obj option \<times> MemStorage" where
  "updateHomework id' hw s =
     (case Map_get id' (homework s) of
        None \<Rightarrow> (None, s)
      | Some existing \<Rightarrow>
          (let updated = existing ++ hw
           in (Some updated, s\<lparr>homework := Map_set id' updated (homework s)\<rparr>)))"

definition deleteHomework :: "string \<Rightarrow> MemStorage \<Rightarrow> bool \<times> MemStorage" where
  "deleteHomework id' s = (Map_has id' (homework s), s\<lparr>homework := Map_delete id' (homework s)\<rparr>)"

subsection \<open>Homework submissions\<close>

definition getHomeworkSubmission :: "string \<Rightarrow> MemStorage \<Rightarrow> obj option" where
  "getHomeworkSubmission id' s = Map_get id' (homeworkSubmissions s)"

definition createHomeworkSubmission ::
  "string \<Rightarrow> int \<Rightarrow> obj \<Rightarrow> MemStorage \<Rightarrow> obj \<times> MemStorage" where
  "createHomeworkSubmission uuid now submission s =
     (let newSubmission = submission(''id'' \<mapsto> JStr uuid, ''submittedAt'' \<mapsto> JDate now)
      in (newSubmission,
          s\<lparr>homeworkSubmissions := Map_set uuid newSubmission (homeworkSubmissions s)\<rparr>))"

definition updateHomeworkSubmission ::
  "string \<Rightarrow> obj \<Rightarrow> MemStorage \<Rightarrow> obj option \<times> MemStorage" where
  "updateHomeworkSubmission id' submission s =
     (case Map_get id' (homeworkSubmissions s) of
        None \<Rightarrow> (None, s)
      | Some existing \<Rightarrow>
          (let updated = existing ++ submission
           in (Some updated,
               s\<lparr>homeworkSubmissions := Map_set id' updated (homeworkSubmissions s)\<rparr>)))"

subsection \<open>Announcements\<close>

definition getAnnouncement :: "string \<Rightarrow> MemStorage \<Rightarrow> obj option" where
  "getAnnouncement id' s = Map_get id' (announcements s)"

definition createAnnouncement :: "string \<Rightarrow> int \<Rightarrow> obj \<Rightarrow> MemStorage \<Rightarrow> obj \<times> MemStorage" where
  "createAnnouncement uuid now announcement s =
     (let newAnnouncement = announcement(''id'' \<mapsto> JStr uuid, ''createdAt'' \<mapsto> JDate now)
      in (newAnnouncement, s\<lparr>announcements := Map_set uuid newAnnouncement (announcements s)\<rparr>))"

definition updateAnnouncement :: "string \<Rightarrow> obj \<Rightarrow> MemStorage \<Rightarrow> obj option \<times> MemStorage" where
  "updateAnnouncement id' announcement s =
     (case Map_get id' (announcements s) of
        None \<Rightarrow> (None, s)
      | Some existing \<Rightarrow>
          (let updated = existing ++ announcement
           in (Some updated, s\<lparr>announcements := Map_set id' updated (announcements s)\<rparr>)))"

definition deleteAnnouncement :: "string \<Rightarrow> MemStorage \<Rightarrow> bool \<times> MemStorage" where
  "deleteAnnouncement id' s =
     (Map_has id' (announcements s), s\<lparr>announcements := Map_delete id' (announcements s)\<rparr>)"

subsection \<open>System logs\<close>

definition getSystemLog :: "string \<Rightarrow> MemStorage \<Rightarrow> obj option" where
  "getSystemLog id' s = Map_get id' (systemLogs s)"

definition createSystemLog :: "string \<Rightarrow> int \<Rightarrow> obj \<Rightarrow> MemStorage \<Rightarrow> obj \<times> MemStorage" where
  "createSystemLog uuid now log' s =
     (let newLog = log'(''id'' \<mapsto> JStr uuid, ''createdAt'' \<mapsto> JDate now)
      in (newLog, s\<lparr>systemLogs := Map_set uuid newLog (systemLogs s)\<rparr>))"

subsection \<open>System settings\<close>

definition getSystemSetting :: "string \<Rightarrow> MemStorage \<Rightarrow> obj option" where
  "getSystemSetting id' s = Map_get id' (systemSettings s)"

definition createSystemSetting :: "string \<Rightarrow> int \<Rightarrow> obj \<Rightarrow> MemStorage \<Rightarrow> obj \<times> MemStorage" where
  "createSystemSetting uuid now setting s =
     (let newSetting = setting(''id'' \<mapsto> JStr uuid, ''updatedAt'' \<mapsto> JDate now)
      in (newSetting, s\<lparr>systemSettings := Map_set uuid newSetting (systemSettings s)\<rparr>))"

definition updateSystemSetting ::
  "string \<Rightarrow> int \<Rightarrow> obj \<Rightarrow> MemStorage \<Rightarrow> obj option \<times> MemStorage" where
  "updateSystemSetting id' now setting s =
     (case Map_get id' (systemSettings s) of
        None \<Rightarrow> (None, s)
      | Some existing \<Rightarrow>
          (let updated = (existing ++ setting)(''updatedAt'' \<mapsto> JDate now)
           in (Some updated, s\<lparr>systemSettings := Map_set id' updated (systemSettings s)\<rparr>)))"

definition deleteSystemSetting :: "string \<Rightarrow> MemStorage \<Rightarrow> bool \<times> MemStorage" where
  "deleteSystemSetting id' s =
     (Map_has id' (systemSettings s), s\<lparr>systemSettings := Map_delete id' (systemSettings s)\<rparr>)"

subsection \<open>Admin dashboard statistics\<close>

text \<open>
  \<open>currentMonth\<close> is what \<open>new Date().toISOString().slice(0, 7)\<close> yields at the time of
  the call.
\<close>

record DashboardStats =
  totalUsers :: nat
  activeUsers :: nat
  totalStudents :: nat
  totalTutors :: nat
  totalParents :: nat
  totalClasses :: nat
  totalRevenue :: number
  monthlyRevenue :: number
  avgAttendance :: number

definition getAdminDashboardStats :: "string \<Rightarrow> MemStorage \<Rightarrow> DashboardStats" where
  "getAdminDashboardStats currentMonth s =
     (let users' = Map_values (users s);
          students' = Map_values (students s);
          classes' = Map_values (classes s);
          fees' = Map_values (fees s);
          totalUsers' = length users';
          activeUsers' = length (filter (\<lambda>user. ToBoolean (getprop user ''isActive'')) users');
          totalStudents' = length students';
          totalTutors' = length (filter (\<lambda>user. getprop user ''role'' = JStr ''tutor'') users');
          totalParents' = length (filter (\<lambda>user. getprop user ''role'' = JStr ''parent'') users');
          totalClasses' = length classes';
          totalRevenue' =
            foldl (\<lambda>sum fee. number_add sum (parseFloatArg (getprop fee ''amount''))) (Fin 0)
              (filter (\<lambda>fee. getprop fee ''status'' = JStr ''paid'') fees');
          monthlyRevenue' =
            foldl (\<lambda>sum fee. number_add sum (parseFloatArg (getprop fee ''amount''))) (Fin 0)
              (filter (\<lambda>fee. getprop fee ''status'' = JStr ''paid'' \<and>
                             getprop fee ''month'' = JStr currentMonth) fees');
          attendance' = Map_values (attendance s);
          totalAttendanceRecords = length attendance';
          presentRecords =
            length (filter (\<lambda>att. getprop att ''status'' = JStr ''present'' \<or>
                                  getprop att ''status'' = JStr ''late'') attendance');
          avgAttendance' =
            (if totalAttendanceRecords > 0
             then of_nat presentRecords / of_nat totalAttendanceRecords * 100 else (0::rat))
      in \<lparr>totalUsers = totalUsers', activeUsers = activeUsers', totalStudents = totalStudents',
          totalTutors = totalTutors', totalParents = totalParents', totalClasses = totalClasses',
          totalRevenue = totalRevenue', monthlyRevenue = monthlyRevenue',
          avgAttendance = parseFloat (toFixed1 avgAttendance')\<rparr>)"

subsection \<open>Construction\<close>

text \<open>
  The field initialisers make ten empty Maps and the constructor then runs \<open>seedData\<close>,
  which is the only way a store comes into being. \<open>seedData\<close> calls \<open>randomUUID()\<close> seven
  times (\<open>uuids 0\<close> to \<open>uuids 6\<close>, in program order) and reads the clock twelve times
  (\<open>clock 0\<close> to \<open>clock 11\<close>; the two due dates are \<open>Date.now()\<close> plus seven days).
\<close>

definition emptyStorage :: MemStorage where
  "emptyStorage =
     \<lparr>users = [], students = [], classes = [], attendance = [], fees = [], homework = [],
      homeworkSubmissions = [], announcements = [], systemLogs = [], systemSettings = []\<rparr>"

definition seedData :: "(nat \<Rightarrow> string) \<Rightarrow> (nat \<Rightarrow> int) \<Rightarrow> MemStorage \<Rightarrow> MemStorage" where
  "seedData uuids clock s =
     (let adminId = uuids 0;
          admin = [''id'' \<mapsto> JStr adminId, ''email'' \<mapsto> JStr ''admin@edumanage.com'',
                   ''password'' \<mapsto> JStr ''admin123'', ''name'' \<mapsto> JStr ''System Administrator'',
                   ''role'' \<mapsto> JStr ''admin'', ''avatar'' \<mapsto> JNull, ''isActive'' \<mapsto> JBool True,
                   ''lastLogin'' \<mapsto> JDate (clock 0), ''createdAt'' \<mapsto> JDate (clock 1)];
          s = s\<lparr>users := Map_set adminId admin (users s)\<rparr>;
          tutorId = uuids 1;
          tutor = [''id'' \<mapsto> JStr tutorId, ''email'' \<mapsto> JStr ''tutor@edumanage.com'',
                   ''password'' \<mapsto> JStr ''password123'', ''name'' \<mapsto> JStr ''Sarah Johnson'',
                   ''role'' \<mapsto> JStr ''tutor'', ''avatar'' \<mapsto> JNull, ''isActive'' \<mapsto> JBool True,
                   ''lastLogin'' \<mapsto> JDate (clock 2), ''createdAt'' \<mapsto> JDate (clock 3)];
          s = s\<lparr>users := Map_set tutorId tutor (users s)\<rparr>;
          student1Id = uuids 2;
          student1 = [''id'' \<mapsto> JStr student1Id, ''name'' \<mapsto> JStr ''Alex Chen'',
                      ''email'' \<mapsto> JStr ''alex.chen@email.com'', ''rollNumber'' \<mapsto> JStr ''101'',
                      ''grade'' \<mapsto> JStr ''Grade 10'', ''subjects'' \<mapsto> JArr [JStr ''Mathematics''],
                      ''parentId'' \<mapsto> JNull, ''tutorId'' \<mapsto> JStr tutorId, ''avatar'' \<mapsto> JNull,
                      ''createdAt'' \<mapsto> JDate (clock 4)];
          s = s\<lparr>students := Map_set student1Id student1 (students s)\<rparr>;
          student2Id = uuids 3;
          student2 = [''id'' \<mapsto> JStr student2Id, ''name'' \<mapsto> JStr ''Emma Wilson'',
                      ''email'' \<mapsto> JStr ''emma.wilson@email.com'', ''rollNumber'' \<mapsto> JStr ''102'',
                      ''grade'' \<mapsto> JStr ''Grade 11'', ''subjects'' \<mapsto> JArr [JStr ''Physics''],
                      ''parentId'' \<mapsto> JNull, ''tutorId'' \<mapsto> JStr tutorId, ''avatar'' \<mapsto> JNull,
                      ''createdAt'' \<mapsto> JDate (clock 5)];
          s = s\<lparr>students := Map_set student2Id student2 (students s)\<rparr>;
          classId = uuids 4;
          mathClass = [''id'' \<mapsto> JStr classId, ''name'' \<mapsto> JStr ''Mathematics Grade 10'',
                       ''subject'' \<mapsto> JStr ''Mathematics'', ''grade'' \<mapsto> JStr ''Grade 10'',
                       ''tutorId'' \<mapsto> JStr tutorId,
                       ''schedule'' \<mapsto> JArr [JObj [(''day'', JStr ''Monday''), (''time'', JStr ''2:00 PM'')],
                                             JObj [(''day'', JStr ''Wednesday''), (''time'', JStr ''2:00 PM'')]],
                       ''studentIds'' \<mapsto> JArr [JStr student1Id], ''feeAmount'' \<mapsto> JStr ''250.00'',
                       ''createdAt'' \<mapsto> JDate (clock 6)];
          s = s\<lparr>classes := Map_set classId mathClass (classes s)\<rparr>;
          feeId = uuids 5;
          fee = [''id'' \<mapsto> JStr feeId, ''studentId'' \<mapsto> JStr student1Id, ''classId'' \<mapsto> JStr classId,
                 ''amount'' \<mapsto> JStr ''250.00'',
                 ''dueDate'' \<mapsto> JDate (clock 7 + 7 * 24 * 60 * 60 * 1000),
                 ''paidDate'' \<mapsto> JDate (clock 8), ''status'' \<mapsto> JStr ''paid'',
                 ''month'' \<mapsto> JStr ''2024-11'', ''createdAt'' \<mapsto> JDate (clock 9)];
          s = s\<lparr>fees := Map_set feeId fee (fees s)\<rparr>;
          homeworkId = uuids 6;
          homeworkAssignment =
                [''id'' \<mapsto> JStr homeworkId, ''title'' \<mapsto> JStr ''Chapter 5: Quadratic Equations'',
                 ''description'' \<mapsto> JStr ''Complete exercises 5.1 to 5.5 from the textbook. Show all working steps clearly.'',
                 ''classId'' \<mapsto> JStr classId, ''tutorId'' \<mapsto> JStr tutorId,
                 ''dueDate'' \<mapsto> JDate (clock 10 + 7 * 24 * 60 * 60 * 1000),
                 ''assignedDate'' \<mapsto> JDate (clock 11), ''status'' \<mapsto> JStr ''active'',
                 ''totalStudents'' \<mapsto> JNum 1, ''submittedCount'' \<mapsto> JNum 0]
      in s\<lparr>homework := Map_set homeworkId homeworkAssignment (homework s)\<rparr>)"

definition newMemStorage :: "(nat \<Rightarrow> string) \<Rightarrow> (nat \<Rightarrow> int) \<Rightarrow> MemStorage" where
  "newMemStorage uuids clock = seedData uuids clock emptyStorage"

subsection \<open>A concrete run\<close>

text \<open>
  A freshly constructed store, with seven distinct identifiers and a clock that advances
  by one millisecond per reading (starting 2024-11-03T00:00:00Z). The closed instances of
  the theorems below are stated on it.
\<close>

definition exampleUuids :: "nat \<Rightarrow> string" where
  "exampleUuids k = [''u0'', ''u1'', ''u2'', ''u3'', ''u4'', ''u5'', ''u6''] ! k"

definition exampleClock :: "nat \<Rightarrow> int" where
  "exampleClock k = 1730592000000 + int k"

definition exampleStore :: MemStorage where
  "exampleStore = newMemStorage exampleUuids exampleClock"

text \<open>
  The same store after one attendance record, one homework submission, one announcement
  and one system setting have been created, so that every collection with an update
  method holds a record.
\<close>

definition populatedStore :: MemStorage where
  "populatedStore =
     (let s = exampleStore;
          s = snd (createAttendance ''u7'' 1730592000100
                [''classId'' \<mapsto> JStr ''u4'', ''studentId'' \<mapsto> JStr ''u2'',
                 ''date'' \<mapsto> JDate 1730592000000, ''status'' \<mapsto> JStr ''present''] s);
          s = snd (createHomeworkSubmission ''u8'' 1730592000101
                [''homeworkId'' \<mapsto> JStr ''u6'', ''studentId'' \<mapsto> JStr ''u2'',
                 ''submissionText'' \<mapsto> JStr ''x = 2'', ''status'' \<mapsto> JStr ''submitted''] s);
          s = snd (createAnnouncement ''u9'' 1730592000102
                [''title'' \<mapsto> JStr ''Holiday'', ''message'' \<mapsto> JStr ''No class on Friday'',
                 ''tutorId'' \<mapsto> JStr ''u1'', ''targetAudience'' \<mapsto> JStr ''all'',
                 ''classIds'' \<mapsto> JArr [JStr ''u4''], ''isImportant'' \<mapsto> JBool False] s);
          s = snd (createSystemSetting ''u10'' 1730592000103
                [''key'' \<mapsto> JStr ''site_name'', ''value'' \<mapsto> JStr ''EduManage'',
                 ''category'' \<mapsto> JStr ''general''] s)
      in s)"

text \<open>Three attendance payloads for a bulk insert, and the identifiers it will draw.\<close>

definition exampleBulkUuids :: "nat \<Rightarrow> string" where
  "exampleBulkUuids k = [''b0'', ''b1'', ''b2''] ! k"

definition exampleAttendanceList :: "obj list" where
  "exampleAttendanceList =
     [[''classId'' \<mapsto> JStr ''u4'', ''studentId'' \<mapsto> JStr ''u2'',
       ''date'' \<mapsto> JDate 1730678400000, ''status'' \<mapsto> JStr ''present''],
      [''classId'' \<mapsto> JStr ''u4'', ''studentId'' \<mapsto> JStr ''u3'',
       ''date'' \<mapsto> JDate 1730678400000, ''status'' \<mapsto> JStr ''late''],
      [''classId'' \<mapsto> JStr ''u4'', ''studentId'' \<mapsto> JStr ''u2'',
       ''date'' \<mapsto> JDate 1730764800000, ''status'' \<mapsto> JStr ''absent'']]"

text \<open>
  A roll call of four (three present, one absent) entered in bulk on the fresh store; and
  the fee of the revenue scenario, created on the fresh store and then marked paid.
\<close>

definition rollCallUuids :: "nat \<Rightarrow> string" where
  "rollCallUuids k = [''r0'', ''r1'', ''r2'', ''r3''] ! k"

definition rollCall :: "obj list" where
  "rollCall =
     [[''classId'' \<mapsto> JStr ''u4'', ''studentId'' \<mapsto> JStr ''u2'',
       ''date'' \<mapsto> JDate 1730678400000, ''status'' \<mapsto> JStr ''present''],
      [''classId'' \<mapsto> JStr ''u4'', ''studentId'' \<mapsto> JStr ''u2'',
       ''date'' \<mapsto> JDate 1730764800000, ''status'' \<mapsto> JStr ''present''],
      [''classId'' \<mapsto> JStr ''u4'', ''studentId'' \<mapsto> JStr ''u2'',
       ''date'' \<mapsto> JDate 1730851200000, ''status'' \<mapsto> JStr ''absent''],
      [''classId'' \<mapsto> JStr ''u4'', ''studentId'' \<mapsto> JStr ''u2'',
       ''date'' \<mapsto> JDate 1730937600000, ''status'' \<mapsto> JStr ''present'']]"

definition rollCallStore :: MemStorage where
  "rollCallStore = snd (bulkCreateAttendance rollCallUuids exampleClock rollCall exampleStore)"




section \<open>Facts about the Map\<close>

lemma Map_get_set_same: "Map_get k (Map_set k v m) = Some v"
  by (induction m) (auto simp: Map_get_def)

lemma Map_get_set_other: "k' \<noteq> k \<Longrightarrow> Map_get k' (Map_set k v m) = Map_get k' m"
  by (induction m) (auto simp: Map_get_def)

lemma Map_get_delete_same: "Map_get k (Map_delete k m) = None"
  by (induction m) (auto simp: Map_get_def Map_delete_def)

lemma Map_has_iff_get: "Map_has k m \<longleftrightarrow> Map_get k m \<noteq> None"
  by (induction m) (auto simp: Map_has_def Map_get_def)

lemma Map_delete_absent: "Map_get k m = None \<Longrightarrow> Map_delete k m = m"
  by (induction m) (auto simp: Map_get_def Map_delete_def split: if_splits)


section \<open>The freshly constructed store\<close>

lemma exampleStore_users:
  "map fst (users exampleStore) = [''u0'', ''u1'']"
  by (simp add: exampleStore_def newMemStorage_def seedData_def emptyStorage_def
        exampleUuids_def Let_def)

lemma exampleStore_students:
  "map fst (students exampleStore) = [''u2'', ''u3'']"
  by (simp add: exampleStore_def newMemStorage_def seedData_def emptyStorage_def
        exampleUuids_def Let_def)

lemma exampleStore_classes:
  "map fst (classes exampleStore) = [''u4'']"
  by (simp add: exampleStore_def newMemStorage_def seedData_def emptyStorage_def
        exampleUuids_def Let_def)

lemma exampleStore_fees:
  "fees exampleStore =
     [(''u5'', [''id'' \<mapsto> JStr ''u5'', ''studentId'' \<mapsto> JStr ''u2'', ''classId'' \<mapsto> JStr ''u4'',
               ''amount'' \<mapsto> JStr ''250.00'', ''dueDate'' \<mapsto> JDate 1731196800007,
               ''paidDate'' \<mapsto> JDate 1730592000008, ''status'' \<mapsto> JStr ''paid'',
               ''month'' \<mapsto> JStr ''2024-11'', ''createdAt'' \<mapsto> JDate 1730592000009])]"
  by (simp add: exampleStore_def newMemStorage_def seedData_def emptyStorage_def
        exampleUuids_def exampleClock_def Let_def)

lemma exampleStore_homework:
  "map fst (homework exampleStore) = [''u6'']"
  by (simp add: exampleStore_def newMemStorage_def seedData_def emptyStorage_def
        exampleUuids_def Let_def)

lemma exampleStore_empty:
  "attendance exampleStore = []" "homeworkSubmissions exampleStore = []"
  "announcements exampleStore = []" "systemLogs exampleStore = []"
  "systemSettings exampleStore = []"
  by (simp_all add: exampleStore_def newMemStorage_def seedData_def emptyStorage_def Let_def)

lemma Map_get_absent: "k \<notin> set (map fst m) \<Longrightarrow> Map_get k m = None"
  by (simp add: Map_get_def map_of_eq_None_iff)

lemma Map_get_present: "k \<in> set (map fst m) \<Longrightarrow> Map_get k m \<noteq> None"
  by (simp add: Map_get_def map_of_eq_None_iff)

lemmas get_defs = getUser_def getStudent_def getClass_def getAttendance_def getFee_def
  getHomework_def getHomeworkSubmission_def getAnnouncement_def getSystemLog_def
  getSystemSetting_def

lemmas create_defs = createUser_def createStudent_def createClass_def createAttendance_def
  createFee_def createHomework_def createHomeworkSubmission_def createAnnouncement_def
  createSystemLog_def createSystemSetting_def

lemmas delete_defs = deleteUser_def deleteStudent_def deleteClass_def deleteFee_def
  deleteHomework_def deleteAnnouncement_def deleteSystemSetting_def

lemma populatedStore_keys:
  "map fst (users populatedStore) = [''u0'', ''u1'']"
  "map fst (students populatedStore) = [''u2'', ''u3'']"
  "map fst (classes populatedStore) = [''u4'']"
  "map fst (fees populatedStore) = [''u5'']"
  "map fst (homework populatedStore) = [''u6'']"
  "map fst (attendance populatedStore) = [''u7'']"
  "map fst (homeworkSubmissions populatedStore) = [''u8'']"
  "map fst (announcements populatedStore) = [''u9'']"
  "map fst (systemSettings populatedStore) = [''u10'']"
  by (simp_all add: populatedStore_def Let_def createAttendance_def
      createHomeworkSubmission_def createAnnouncement_def createSystemSetting_def
      exampleStore_users exampleStore_students exampleStore_classes exampleStore_fees
      exampleStore_homework exampleStore_empty)

lemma populatedStore_setting:
  "getSystemSetting ''u10'' populatedStore =
     Some [''key'' \<mapsto> JStr ''site_name'', ''value'' \<mapsto> JStr ''EduManage'',
           ''category'' \<mapsto> JStr ''general'', ''id'' \<mapsto> JStr ''u10'',
           ''updatedAt'' \<mapsto> JDate 1730592000103]"
  by (simp add: populatedStore_def Let_def createAttendance_def createHomeworkSubmission_def
      createAnnouncement_def createSystemSetting_def exampleStore_empty getSystemSetting_def
      Map_get_def)

lemma populatedStore_present:
  "getUser ''u1'' populatedStore \<noteq> None" "getStudent ''u2'' populatedStore \<noteq> None"
  "getClass ''u4'' populatedStore \<noteq> None" "getAttendance ''u7'' populatedStore \<noteq> None"
  "getFee ''u5'' populatedStore \<noteq> None" "getHomework ''u6'' populatedStore \<noteq> None"
  "getHomeworkSubmission ''u8'' populatedStore \<noteq> None"
  "getAnnouncement ''u9'' populatedStore \<noteq> None"
  "getSystemSetting ''u10'' populatedStore \<noteq> None"
  by (simp_all add: get_defs Map_get_present populatedStore_keys)

lemma populatedStore_absent:
  "getUser ''u99'' populatedStore = None" "getStudent ''u99'' populatedStore = None"
  "getClass ''u99'' populatedStore = None" "getAttendance ''u99'' populatedStore = None"
  "getFee ''u99'' populatedStore = None" "getHomework ''u99'' populatedStore = None"
  "getHomeworkSubmission ''u99'' populatedStore = None"
  "getAnnouncement ''u99'' populatedStore = None"
  "getSystemSetting ''u99'' populatedStore = None"
  by (simp_all add: get_defs Map_get_absent populatedStore_keys)

lemmas update_defs = updateUser_def updateStudent_def updateClass_def updateAttendance_def
  updateFee_def updateHomework_def updateHomeworkSubmission_def updateAnnouncement_def
  updateSystemSetting_def

section \<open>Creation\<close>

text \<open>
  C10. Whatever the payload holds, the \<open>createUser\<close> that runs (the later of the two
  definitions) returns a user with \<open>isActive\<close> true and \<open>lastLogin\<close> null, and that same
  user is what the store then holds under the new identifier.
\<close>

theorem createUser_forces_isActive_lastLogin:
  "(case createUser uuid now user s of (newUser, s') \<Rightarrow>
      newUser ''isActive'' = Some (JBool True) \<and>
      newUser ''lastLogin'' = Some JNull \<and>
      getUser uuid s' = Some newUser)"
  by (simp add: createUser_def getUser_def Let_def Map_get_set_same)

text \<open>
  C8. For each of the ten kinds, the record a create returns carries the synthesized
  identifier and timestamp, and a get on that identifier, run on the store the create
  left, returns that very record.
\<close>

theorem get_after_create:
  "(case createUser uuid now p s of (r, s') \<Rightarrow>
      getprop r ''id'' = JStr uuid \<and> getprop r ''createdAt'' = JDate now \<and> getUser uuid s' = Some r) \<and>
   (case createStudent uuid now p s of (r, s') \<Rightarrow>
      getprop r ''id'' = JStr uuid \<and> getprop r ''createdAt'' = JDate now \<and> getStudent uuid s' = Some r) \<and>
   (case createClass uuid now p s of (r, s') \<Rightarrow>
      getprop r ''id'' = JStr uuid \<and> getprop r ''createdAt'' = JDate now \<and> getClass uuid s' = Some r) \<and>
   (case createAttendance uuid now p s of (r, s') \<Rightarrow>
      getprop r ''id'' = JStr uuid \<and> getprop r ''createdAt'' = JDate now \<and> getAttendance uuid s' = Some r) \<and>
   (case createFee uuid now p s of (r, s') \<Rightarrow>
      getprop r ''id'' = JStr uuid \<and> getprop r ''createdAt'' = JDate now \<and> getFee uuid s' = Some r) \<and>
   (case createHomework uuid now p s of (r, s') \<Rightarrow>
      getprop r ''id'' = JStr uuid \<and> getprop r ''assignedDate'' = JDate now \<and> getHomework uuid s' = Some r) \<and>
   (case createHomeworkSubmission uuid now p s of (r, s') \<Rightarrow>
      getprop r ''id'' = JStr uuid \<and> getprop r ''submittedAt'' = JDate now \<and>
      getHomeworkSubmission uuid s' = Some r) \<and>
   (case createAnnouncement uuid now p s of (r, s') \<Rightarrow>
      getprop r ''id'' = JStr uuid \<and> getprop r ''createdAt'' = JDate now \<and> getAnnouncement uuid s' = Some r) \<and>
   (case createSystemLog uuid now p s of (r, s') \<Rightarrow>
      getprop r ''id'' = JStr uuid \<and> getprop r ''createdAt'' = JDate now \<and> getSystemLog uuid s' = Some r) \<and>
   (case createSystemSetting uuid now p s of (r, s') \<Rightarrow>
      getprop r ''id'' = JStr uuid \<and> getprop r ''updatedAt'' = JDate now \<and> getSystemSetting uuid s' = Some r)"
  by (simp add: create_defs get_defs getprop_def Let_def Map_get_set_same)

text \<open>
  C4, as the code has it. Each create writes the synthesized identifier and the time of
  the call over whatever the payload holds under \<open>id\<close> and under the kind's timestamp
  property, stores the result under the identifier and returns it; every other property
  of the payload is stored as given. \<open>createUser\<close> writes two more properties over the
  payload: \<open>isActive\<close> (true) and \<open>lastLogin\<close> (null).
\<close>

theorem create_synthesizes_id_and_timestamp:
  "(case createUser uuid now p s of (r, s') \<Rightarrow>
      r ''id'' = Some (JStr uuid) \<and> r ''createdAt'' = Some (JDate now) \<and>
      r ''isActive'' = Some (JBool True) \<and> r ''lastLogin'' = Some JNull \<and>
      (\<forall>g. g \<noteq> ''id'' \<and> g \<noteq> ''createdAt'' \<and> g \<noteq> ''isActive'' \<and> g \<noteq> ''lastLogin''
         \<longrightarrow> r g = p g) \<and>
      getUser uuid s' = Some r) \<and>
   (case createStudent uuid now p s of (r, s') \<Rightarrow>
      r ''id'' = Some (JStr uuid) \<and> r ''createdAt'' = Some (JDate now) \<and>
      (\<forall>g. g \<noteq> ''id'' \<and> g \<noteq> ''createdAt'' \<longrightarrow> r g = p g) \<and>
      getStudent uuid s' = Some r) \<and>
   (case createClass uuid now p s of (r, s') \<Rightarrow>
      r ''id'' = Some (JStr uuid) \<and> r ''createdAt'' = Some (JDate now) \<and>
      (\<forall>g. g \<noteq> ''id'' \<and> g \<noteq> ''createdAt'' \<longrightarrow> r g = p g) \<and>
      getClass uuid s' = Some r) \<and>
   (case createAttendance uuid now p s of (r, s') \<Rightarrow>
      r ''id'' = Some (JStr uuid) \<and> r ''createdAt'' = Some (JDate now) \<and>
      (\<forall>g. g \<noteq> ''id'' \<and> g \<noteq> ''createdAt'' \<longrightarrow> r g = p g) \<and>
      getAttendance uuid s' = Some r) \<and>
   (case createFee uuid now p s of (r, s') \<Rightarrow>
      r ''id'' = Some (JStr uuid) \<and> r ''createdAt'' = Some (JDate now) \<and>
      (\<forall>g. g \<noteq> ''id'' \<and> g \<noteq> ''createdAt'' \<longrightarrow> r g = p g) \<and>
      getFee uuid s' = Some r) \<and>
   (case createHomework uuid now p s of (r, s') \<Rightarrow>
      r ''id'' = Some (JStr uuid) \<and> r ''assignedDate'' = Some (JDate now) \<and>
      (\<forall>g. g \<noteq> ''id'' \<and> g \<noteq> ''assignedDate'' \<longrightarrow> r g = p g) \<and>
      getHomework uuid s' = Some r) \<and>
   (case createHomeworkSubmission uuid now p s of (r, s') \<Rightarrow>
      r ''id'' = Some (JStr uuid) \<and> r ''submittedAt'' = Some (JDate now) \<and>
      (\<forall>g. g \<noteq> ''id'' \<and> g \<noteq> ''submittedAt'' \<longrightarrow> r g = p g) \<and>
      getHomeworkSubmission uuid s' = Some r) \<and>
   (case createAnnouncement uuid now p s of (r, s') \<Rightarrow>
      r ''id'' = Some (JStr uuid) \<and> r ''createdAt'' = Some (JDate now) \<and>
      (\<forall>g. g \<noteq> ''id'' \<and> g \<noteq> ''createdAt'' \<longrightarrow> r g = p g) \<and>
      getAnnouncement uuid s' = Some r) \<and>
   (case createSystemLog uuid now p s of (r, s') \<Rightarrow>
      r ''id'' = Some (JStr uuid) \<and> r ''createdAt'' = Some (JDate now) \<and>
      (\<forall>g. g \<noteq> ''id'' \<and> g \<noteq> ''createdAt'' \<longrightarrow> r g = p g) \<and>
      getSystemLog uuid s' = Some r) \<and>
   (case createSystemSetting uuid now p s of (r, s') \<Rightarrow>
      r ''id'' = Some (JStr uuid) \<and> r ''updatedAt'' = Some (JDate now) \<and>
      (\<forall>g. g \<noteq> ''id'' \<and> g \<noteq> ''updatedAt'' \<longrightarrow> r g = p g) \<and>
      getSystemSetting uuid s' = Some r)"
  by (simp add: create_defs get_defs Let_def Map_get_set_same)

theorem create_synthesizes_id_and_timestamp_witness:
  "(fst (createUser ''u11'' 1730592000300 [''id'' \<mapsto> JStr ''chosen-by-caller'', ''createdAt'' \<mapsto> JDate 0, ''notes'' \<mapsto> JStr ''n/a''] populatedStore) ''id'' = Some (JStr ''u11'') \<and>
      fst (createUser ''u11'' 1730592000300 [''id'' \<mapsto> JStr ''chosen-by-caller'', ''createdAt'' \<mapsto> JDate 0, ''notes'' \<mapsto> JStr ''n/a''] populatedStore) ''createdAt'' = Some (JDate 1730592000300) \<and>
      fst (createUser ''u11'' 1730592000300 [''id'' \<mapsto> JStr ''chosen-by-caller'', ''createdAt'' \<mapsto> JDate 0, ''notes'' \<mapsto> JStr ''n/a''] populatedStore) ''notes'' = Some (JStr ''n/a'')) \<and>
   (fst (createStudent ''u11'' 1730592000300 [''id'' \<mapsto> JStr ''chosen-by-caller'', ''createdAt'' \<mapsto> JDate 0, ''notes'' \<mapsto> JStr ''n/a''] populatedStore) ''id'' = Some (JStr ''u11'') \<and>
      fst (createStudent ''u11'' 1730592000300 [''id'' \<mapsto> JStr ''chosen-by-caller'', ''createdAt'' \<mapsto> JDate 0, ''notes'' \<mapsto> JStr ''n/a''] populatedStore) ''createdAt'' = Some (JDate 1730592000300) \<and>
      fst (createStudent ''u11'' 1730592000300 [''id'' \<mapsto> JStr ''chosen-by-caller'', ''createdAt'' \<mapsto> JDate 0, ''notes'' \<mapsto> JStr ''n/a''] populatedStore) ''notes'' = Some (JStr ''n/a'')) \<and>
   (fst (createClass ''u11'' 1730592000300 [''id'' \<mapsto> JStr ''chosen-by-caller'', ''createdAt'' \<mapsto> JDate 0, ''notes'' \<mapsto> JStr ''n/a''] populatedStore) ''id'' = Some (JStr ''u11'') \<and>
      fst (createClass ''u11'' 1730592000300 [''id'' \<mapsto> JStr ''chosen-by-caller'', ''createdAt'' \<mapsto> JDate 0, ''notes'' \<mapsto> JStr ''n/a''] populatedStore) ''createdAt'' = Some (JDate 1730592000300) \<and>
      fst (createClass ''u11'' 1730592000300 [''id'' \<mapsto> JStr ''chosen-by-caller'', ''createdAt'' \<mapsto> JDate 0, ''notes'' \<mapsto> JStr ''n/a''] populatedStore) ''notes'' = Some (JStr ''n/a'')) \<and>
   (fst (createAttendance ''u11'' 1730592000300 [''id'' \<mapsto> JStr ''chosen-by-caller'', ''createdAt'' \<mapsto> JDate 0, ''notes'' \<mapsto> JStr ''n/a''] populatedStore) ''id'' = Some (JStr ''u11'') \<and>
      fst (createAttendance ''u11'' 1730592000300 [''id'' \<mapsto> JStr ''chosen-by-caller'', ''createdAt'' \<mapsto> JDate 0, ''notes'' \<mapsto> JStr ''n/a''] populatedStore) ''createdAt'' = Some (JDate 1730592000300) \<and>
      fst (createAttendance ''u11'' 1730592000300 [''id'' \<mapsto> JStr ''chosen-by-caller'', ''createdAt'' \<mapsto> JDate 0, ''notes'' \<mapsto> JStr ''n/a''] populatedStore) ''notes'' = Some (JStr ''n/a'')) \<and>
   (fst (createFee ''u11'' 1730592000300 [''id'' \<mapsto> JStr ''chosen-by-caller'', ''createdAt'' \<mapsto> JDate 0, ''notes'' \<mapsto> JStr ''n/a''] populatedStore) ''id'' = Some (JStr ''u11'') \<and>
      fst (createFee ''u11'' 1730592000300 [''id'' \<mapsto> JStr ''chosen-by-caller'', ''createdAt'' \<mapsto> JDate 0, ''notes'' \<mapsto> JStr ''n/a''] populatedStore) ''createdAt'' = Some (JDate 1730592000300) \<and>
      fst (createFee ''u11'' 1730592000300 [''id'' \<mapsto> JStr ''chosen-by-caller'', ''createdAt'' \<mapsto> JDate 0, ''notes'' \<mapsto> JStr ''n/a''] populatedStore) ''notes'' = Some (JStr ''n/a'')) \<and>
   (fst (createHomework ''u11'' 1730592000300 [''id'' \<mapsto> JStr ''chosen-by-caller'', ''assignedDate'' \<mapsto> JDate 0, ''notes'' \<mapsto> JStr ''n/a''] populatedStore) ''id'' = Some (JStr ''u11'') \<and>
      fst (createHomework ''u11'' 1730592000300 [''id'' \<mapsto> JStr ''chosen-by-caller'', ''assignedDate'' \<mapsto> JDate 0, ''notes'' \<mapsto> JStr ''n/a''] populatedStore) ''assignedDate'' = Some (JDate 1730592000300) \<and>
      fst (createHomework ''u11'' 1730592000300 [''id'' \<mapsto> JStr ''chosen-by-caller'', ''assignedDate'' \<mapsto> JDate 0, ''notes'' \<mapsto> JStr ''n/a''] populatedStore) ''notes'' = Some (JStr ''n/a'')) \<and>
   (fst (createHomeworkSubmission ''u11'' 1730592000300 [''id'' \<mapsto> JStr ''chosen-by-caller'', ''submittedAt'' \<mapsto> JDate 0, ''notes'' \<mapsto> JStr ''n/a''] populatedStore) ''id'' = Some (JStr ''u11'') \<and>
      fst (createHomeworkSubmission ''u11'' 1730592000300 [''id'' \<mapsto> JStr ''chosen-by-caller'', ''submittedAt'' \<mapsto> JDate 0, ''notes'' \<mapsto> JStr ''n/a''] populatedStore) ''submittedAt'' = Some (JDate 1730592000300) \<and>
      fst (createHomeworkSubmission ''u11'' 1730592000300 [''id'' \<mapsto> JStr ''chosen-by-caller'', ''submittedAt'' \<mapsto> JDate 0, ''notes'' \<mapsto> JStr ''n/a''] populatedStore) ''notes'' = Some (JStr ''n/a'')) \<and>
   (fst (createAnnouncement ''u11'' 1730592000300 [''id'' \<mapsto> JStr ''chosen-by-caller'', ''createdAt'' \<mapsto> JDate 0, ''notes'' \<mapsto> JStr ''n/a''] populatedStore) ''id'' = Some (JStr ''u11'') \<and>
      fst (createAnnouncement ''u11'' 1730592000300 [''id'' \<mapsto> JStr ''chosen-by-caller'', ''createdAt'' \<mapsto> JDate 0, ''notes'' \<mapsto> JStr ''n/a''] populatedStore) ''createdAt'' = Some (JDate 1730592000300) \<and>
      fst (createAnnouncement ''u11'' 1730592000300 [''id'' \<mapsto> JStr ''chosen-by-caller'', ''createdAt'' \<mapsto> JDate 0, ''notes'' \<mapsto> JStr ''n/a''] populatedStore) ''notes'' = Some (JStr ''n/a'')) \<and>
   (fst (createSystemLog ''u11'' 1730592000300 [''id'' \<mapsto> JStr ''chosen-by-caller'', ''createdAt'' \<mapsto> JDate 0, ''notes'' \<mapsto> JStr ''n/a''] populatedStore) ''id'' = Some (JStr ''u11'') \<and>
      fst (createSystemLog ''u11'' 1730592000300 [''id'' \<mapsto> JStr ''chosen-by-caller'', ''createdAt'' \<mapsto> JDate 0, ''notes'' \<mapsto> JStr ''n/a''] populatedStore) ''createdAt'' = Some (JDate 1730592000300) \<and>
      fst (createSystemLog ''u11'' 1730592000300 [''id'' \<mapsto> JStr ''chosen-by-caller'', ''createdAt'' \<mapsto> JDate 0, ''notes'' \<mapsto> JStr ''n/a''] populatedStore) ''notes'' = Some (JStr ''n/a'')) \<and>
   (fst (createSystemSetting ''u11'' 1730592000300 [''id'' \<mapsto> JStr ''chosen-by-caller'', ''updatedAt'' \<mapsto> JDate 0, ''notes'' \<mapsto> JStr ''n/a''] populatedStore) ''id'' = Some (JStr ''u11'') \<and>
      fst (createSystemSetting ''u11'' 1730592000300 [''id'' \<mapsto> JStr ''chosen-by-caller'', ''updatedAt'' \<mapsto> JDate 0, ''notes'' \<mapsto> JStr ''n/a''] populatedStore) ''updatedAt'' = Some (JDate 1730592000300) \<and>
      fst (createSystemSetting ''u11'' 1730592000300 [''id'' \<mapsto> JStr ''chosen-by-caller'', ''updatedAt'' \<mapsto> JDate 0, ''notes'' \<mapsto> JStr ''n/a''] populatedStore) ''notes'' = Some (JStr ''n/a''))"
proof -
  have k0: "(fst (createUser ''u11'' 1730592000300 [''id'' \<mapsto> JStr ''chosen-by-caller'', ''createdAt'' \<mapsto> JDate 0, ''notes'' \<mapsto> JStr ''n/a''] populatedStore) ''id'' = Some (JStr ''u11'') \<and>
      fst (createUser ''u11'' 1730592000300 [''id'' \<mapsto> JStr ''chosen-by-caller'', ''createdAt'' \<mapsto> JDate 0, ''notes'' \<mapsto> JStr ''n/a''] populatedStore) ''createdAt'' = Some (JDate 1730592000300) \<and>
      fst (createUser ''u11'' 1730592000300 [''id'' \<mapsto> JStr ''chosen-by-caller'', ''createdAt'' \<mapsto> JDate 0, ''notes'' \<mapsto> JStr ''n/a''] populatedStore) ''notes'' = Some (JStr ''n/a''))"
    using create_synthesizes_id_and_timestamp [where uuid = "''u11''" and now = 1730592000300
        and s = populatedStore and p = "[''id'' \<mapsto> JStr ''chosen-by-caller'', ''createdAt'' \<mapsto> JDate 0, ''notes'' \<mapsto> JStr ''n/a'']", THEN conjunct1]
    by (simp add: split_beta)
  have k1: "(fst (createStudent ''u11'' 1730592000300 [''id'' \<mapsto> JStr ''chosen-by-caller'', ''createdAt'' \<mapsto> JDate 0, ''notes'' \<mapsto> JStr ''n/a''] populatedStore) ''id'' = Some (JStr ''u11'') \<and>
      fst (createStudent ''u11'' 1730592000300 [''id'' \<mapsto> JStr ''chosen-by-caller'', ''createdAt'' \<mapsto> JDate 0, ''notes'' \<mapsto> JStr ''n/a''] populatedStore) ''createdAt'' = Some (JDate 1730592000300) \<and>
      fst (createStudent ''u11'' 1730592000300 [''id'' \<mapsto> JStr ''chosen-by-caller'', ''createdAt'' \<mapsto> JDate 0, ''notes'' \<mapsto> JStr ''n/a''] populatedStore) ''notes'' = Some (JStr ''n/a''))"
    using create_synthesizes_id_and_timestamp [where uuid = "''u11''" and now = 1730592000300
        and s = populatedStore and p = "[''id'' \<mapsto> JStr ''chosen-by-caller'', ''createdAt'' \<mapsto> JDate 0, ''notes'' \<mapsto> JStr ''n/a'']", THEN conjunct2, THEN conjunct1]
    by (simp add: split_beta)
  have k2: "(fst (createClass ''u11'' 1730592000300 [''id'' \<mapsto> JStr ''chosen-by-caller'', ''createdAt'' \<mapsto> JDate 0, ''notes'' \<mapsto> JStr ''n/a''] populatedStore) ''id'' = Some (JStr ''u11'') \<and>
      fst (createClass ''u11'' 1730592000300 [''id'' \<mapsto> JStr ''chosen-by-caller'', ''createdAt'' \<mapsto> JDate 0, ''notes'' \<mapsto> JStr ''n/a''] populatedStore) ''createdAt'' = Some (JDate 1730592000300) \<and>
      fst (createClass ''u11'' 1730592000300 [''id'' \<mapsto> JStr ''chosen-by-caller'', ''createdAt'' \<mapsto> JDate 0, ''notes'' \<mapsto> JStr ''n/a''] populatedStore) ''notes'' = Some (JStr ''n/a''))"
    using create_synthesizes_id_and_timestamp [where uuid = "''u11''" and now = 1730592000300
        and s = populatedStore and p = "[''id'' \<mapsto> JStr ''chosen-by-caller'', ''createdAt'' \<mapsto> JDate 0, ''notes'' \<mapsto> JStr ''n/a'']", THEN conjunct2, THEN conjunct2, THEN conjunct1]
    by (simp add: split_beta)
  have k3: "(fst (createAttendance ''u11'' 1730592000300 [''id'' \<mapsto> JStr ''chosen-by-caller'', ''createdAt'' \<mapsto> JDate 0, ''notes'' \<mapsto> JStr ''n/a''] populatedStore) ''id'' = Some (JStr ''u11'') \<and>
      fst (createAttendance ''u11'' 1730592000300 [''id'' \<mapsto> JStr ''chosen-by-caller'', ''createdAt'' \<mapsto> JDate 0, ''notes'' \<mapsto> JStr ''n/a''] populatedStore) ''createdAt'' = Some (JDate 1730592000300) \<and>
      fst (createAttendance ''u11'' 1730592000300 [''id'' \<mapsto> JStr ''chosen-by-caller'', ''createdAt'' \<mapsto> JDate 0, ''notes'' \<mapsto> JStr ''n/a''] populatedStore) ''notes'' = Some (JStr ''n/a''))"
    using create_synthesizes_id_and_timestamp [where uuid = "''u11''" and now = 1730592000300
        and s = populatedStore and p = "[''id'' \<mapsto> JStr ''chosen-by-caller'', ''createdAt'' \<mapsto> JDate 0, ''notes'' \<mapsto> JStr ''n/a'']", THEN conjunct2, THEN conjunct2, THEN conjunct2, THEN conjunct1]
    by (simp add: split_beta)
  have k4: "(fst (createFee ''u11'' 1730592000300 [''id'' \<mapsto> JStr ''chosen-by-caller'', ''createdAt'' \<mapsto> JDate 0, ''notes'' \<mapsto> JStr ''n/a''] populatedStore) ''id'' = Some (JStr ''u11'') \<and>
      fst (createFee ''u11'' 1730592000300 [''id'' \<mapsto> JStr ''chosen-by-caller'', ''createdAt'' \<mapsto> JDate 0, ''notes'' \<mapsto> JStr ''n/a''] populatedStore) ''createdAt'' = Some (JDate 1730592000300) \<and>
      fst (createFee ''u11'' 1730592000300 [''id'' \<mapsto> JStr ''chosen-by-caller'', ''createdAt'' \<mapsto> JDate 0, ''notes'' \<mapsto> JStr ''n/a''] populatedStore) ''notes'' = Some (JStr ''n/a''))"
    using create_synthesizes_id_and_timestamp [where uuid = "''u11''" and now = 1730592000300
        and s = populatedStore and p = "[''id'' \<mapsto> JStr ''chosen-by-caller'', ''createdAt'' \<mapsto> JDate 0, ''notes'' \<mapsto> JStr ''n/a'']", THEN conjunct2, THEN conjunct2, THEN conjunct2, THEN conjunct2, THEN conjunct1]
    by (simp add: split_beta)
  have k5: "(fst (createHomework ''u11'' 1730592000300 [''id'' \<mapsto> JStr ''chosen-by-caller'', ''assignedDate'' \<mapsto> JDate 0, ''notes'' \<mapsto> JStr ''n/a''] populatedStore) ''id'' = Some (JStr ''u11'') \<and>
      fst (createHomework ''u11'' 1730592000300 [''id'' \<mapsto> JStr ''chosen-by-caller'', ''assignedDate'' \<mapsto> JDate 0, ''notes'' \<mapsto> JStr ''n/a''] populatedStore) ''assignedDate'' = Some (JDate 1730592000300) \<and>
      fst (createHomework ''u11'' 1730592000300 [''id'' \<mapsto> JStr ''chosen-by-caller'', ''assignedDate'' \<mapsto> JDate 0, ''notes'' \<mapsto> JStr ''n/a''] populatedStore) ''notes'' = Some (JStr ''n/a''))"
    using create_synthesizes_id_and_timestamp [where uuid = "''u11''" and now = 1730592000300
        and s = populatedStore and p = "[''id'' \<mapsto> JStr ''chosen-by-caller'', ''assignedDate'' \<mapsto> JDate 0, ''notes'' \<mapsto> JStr ''n/a'']", THEN conjunct2, THEN conjunct2, THEN conjunct2, THEN conjunct2, THEN conjunct2, THEN conjunct1]
    by (simp add: split_beta)
  have k6: "(fst (createHomeworkSubmission ''u11'' 1730592000300 [''id'' \<mapsto> JStr ''chosen-by-caller'', ''submittedAt'' \<mapsto> JDate 0, ''notes'' \<mapsto> JStr ''n/a''] populatedStore) ''id'' = Some (JStr ''u11'') \<and>
      fst (createHomeworkSubmission ''u11'' 1730592000300 [''id'' \<mapsto> JStr ''chosen-by-caller'', ''submittedAt'' \<mapsto> JDate 0, ''notes'' \<mapsto> JStr ''n/a''] populatedStore) ''submittedAt'' = Some (JDate 1730592000300) \<and>
      fst (createHomeworkSubmission ''u11'' 1730592000300 [''id'' \<mapsto> JStr ''chosen-by-caller'', ''submittedAt'' \<mapsto> JDate 0, ''notes'' \<mapsto> JStr ''n/a''] populatedStore) ''notes'' = Some (JStr ''n/a''))"
    using create_synthesizes_id_and_timestamp [where uuid = "''u11''" and now = 1730592000300
        and s = populatedStore and p = "[''id'' \<mapsto> JStr ''chosen-by-caller'', ''submittedAt'' \<mapsto> JDate 0, ''notes'' \<mapsto> JStr ''n/a'']", THEN conjunct2, THEN conjunct2, THEN conjunct2, THEN conjunct2, THEN conjunct2, THEN conjunct2, THEN conjunct1]
    by (simp add: split_beta)
  have k7: "(fst (createAnnouncement ''u11'' 1730592000300 [''id'' \<mapsto> JStr ''chosen-by-caller'', ''createdAt'' \<mapsto> JDate 0, ''notes'' \<mapsto> JStr ''n/a''] populatedStore) ''id'' = Some (JStr ''u11'') \<and>
      fst (createAnnouncement ''u11'' 1730592000300 [''id'' \<mapsto> JStr ''chosen-by-caller'', ''createdAt'' \<mapsto> JDate 0, ''notes'' \<mapsto> JStr ''n/a''] populatedStore) ''createdAt'' = Some (JDate 1730592000300) \<and>
      fst (createAnnouncement ''u11'' 1730592000300 [''id'' \<mapsto> JStr ''chosen-by-caller'', ''createdAt'' \<mapsto> JDate 0, ''notes'' \<mapsto> JStr ''n/a''] populatedStore) ''notes'' = Some (JStr ''n/a''))"
    using create_synthesizes_id_and_timestamp [where uuid = "''u11''" and now = 1730592000300
        and s = populatedStore and p = "[''id'' \<mapsto> JStr ''chosen-by-caller'', ''createdAt'' \<mapsto> JDate 0, ''notes'' \<mapsto> JStr ''n/a'']", THEN conjunct2, THEN conjunct2, THEN conjunct2, THEN conjunct2, THEN conjunct2, THEN conjunct2, THEN conjunct2, THEN conjunct1]
    by (simp add: split_beta)
  have k8: "(fst (createSystemLog ''u11'' 1730592000300 [''id'' \<mapsto> JStr ''chosen-by-caller'', ''createdAt'' \<mapsto> JDate 0, ''notes'' \<mapsto> JStr ''n/a''] populatedStore) ''id'' = Some (JStr ''u11'') \<and>
      fst (createSystemLog ''u11'' 1730592000300 [''id'' \<mapsto> JStr ''chosen-by-caller'', ''createdAt'' \<mapsto> JDate 0, ''notes'' \<mapsto> JStr ''n/a''] populatedStore) ''createdAt'' = Some (JDate 1730592000300) \<and>
      fst (createSystemLog ''u11'' 1730592000300 [''id'' \<mapsto> JStr ''chosen-by-caller'', ''createdAt'' \<mapsto> JDate 0, ''notes'' \<mapsto> JStr ''n/a''] populatedStore) ''notes'' = Some (JStr ''n/a''))"
    using create_synthesizes_id_and_timestamp [where uuid = "''u11''" and now = 1730592000300
        and s = populatedStore and p = "[''id'' \<mapsto> JStr ''chosen-by-caller'', ''createdAt'' \<mapsto> JDate 0, ''notes'' \<mapsto> JStr ''n/a'']", THEN conjunct2, THEN conjunct2, THEN conjunct2, THEN conjunct2, THEN conjunct2, THEN conjunct2, THEN conjunct2, THEN conjunct2, THEN conjunct1]
    by (simp add: split_beta)
  have k9: "(fst (createSystemSetting ''u11'' 1730592000300 [''id'' \<mapsto> JStr ''chosen-by-caller'', ''updatedAt'' \<mapsto> JDate 0, ''notes'' \<mapsto> JStr ''n/a''] populatedStore) ''id'' = Some (JStr ''u11'') \<and>
      fst (createSystemSetting ''u11'' 1730592000300 [''id'' \<mapsto> JStr ''chosen-by-caller'', ''updatedAt'' \<mapsto> JDate 0, ''notes'' \<mapsto> JStr ''n/a''] populatedStore) ''updatedAt'' = Some (JDate 1730592000300) \<and>
      fst (createSystemSetting ''u11'' 1730592000300 [''id'' \<mapsto> JStr ''chosen-by-caller'', ''updatedAt'' \<mapsto> JDate 0, ''notes'' \<mapsto> JStr ''n/a''] populatedStore) ''notes'' = Some (JStr ''n/a''))"
    using create_synthesizes_id_and_timestamp [where uuid = "''u11''" and now = 1730592000300
        and s = populatedStore and p = "[''id'' \<mapsto> JStr ''chosen-by-caller'', ''updatedAt'' \<mapsto> JDate 0, ''notes'' \<mapsto> JStr ''n/a'']", THEN conjunct2, THEN conjunct2, THEN conjunct2, THEN conjunct2, THEN conjunct2, THEN conjunct2, THEN conjunct2, THEN conjunct2, THEN conjunct2]
    by (simp add: split_beta)
  from k0 k1 k2 k3 k4 k5 k6 k7 k8 k9 show ?thesis by blast
qed

text \<open>
  C4 as stated fails for users: \<open>isActive\<close> is neither the identifier nor the creation
  timestamp, and the payload's value for it is not what is stored.
\<close>

theorem createUser_drops_payload_isActive:
  "fst (createUser ''u11'' 1730592000300
          [''email'' \<mapsto> JStr ''li@example.org'', ''password'' \<mapsto> JStr ''pw'',
           ''name'' \<mapsto> JStr ''Li'', ''role'' \<mapsto> JStr ''parent'', ''isActive'' \<mapsto> JBool False]
          populatedStore) ''isActive''
     \<noteq> [''email'' \<mapsto> JStr ''li@example.org'', ''password'' \<mapsto> JStr ''pw'',
         ''name'' \<mapsto> JStr ''Li'', ''role'' \<mapsto> JStr ''parent'', ''isActive'' \<mapsto> JBool False]
          ''isActive''"
  by (simp add: createUser_def Let_def)

section \<open>Deletion\<close>

text \<open>
  C9. For each of the seven kinds that have a delete: after \<open>delete(id)\<close> a get of \<open>id\<close> finds
  nothing; the boolean returned is true exactly when a record was stored under \<open>id\<close>
  before the call; and when none was, the store is left as it was.
\<close>

theorem delete_then_get:
  "(getUser i (snd (deleteUser i s)) = None \<and>
      fst (deleteUser i s) = (getUser i s \<noteq> None) \<and>
      (getUser i s = None \<longrightarrow> deleteUser i s = (False, s))) \<and>
   (getStudent i (snd (deleteStudent i s)) = None \<and>
      fst (deleteStudent i s) = (getStudent i s \<noteq> None) \<and>
      (getStudent i s = None \<longrightarrow> deleteStudent i s = (False, s))) \<and>
   (getClass i (snd (deleteClass i s)) = None \<and>
      fst (deleteClass i s) = (getClass i s \<noteq> None) \<and>
      (getClass i s = None \<longrightarrow> deleteClass i s = (False, s))) \<and>
   (getFee i (snd (deleteFee i s)) = None \<and>
      fst (deleteFee i s) = (getFee i s \<noteq> None) \<and>
      (getFee i s = None \<longrightarrow> deleteFee i s = (False, s))) \<and>
   (getHomework i (snd (deleteHomework i s)) = None \<and>
      fst (deleteHomework i s) = (getHomework i s \<noteq> None) \<and>
      (getHomework i s = None \<longrightarrow> deleteHomework i s = (False, s))) \<and>
   (getAnnouncement i (snd (deleteAnnouncement i s)) = None \<and>
      fst (deleteAnnouncement i s) = (getAnnouncement i s \<noteq> None) \<and>
      (getAnnouncement i s = None \<longrightarrow> deleteAnnouncement i s = (False, s))) \<and>
   (getSystemSetting i (snd (deleteSystemSetting i s)) = None \<and>
      fst (deleteSystemSetting i s) = (getSystemSetting i s \<noteq> None) \<and>
      (getSystemSetting i s = None \<longrightarrow> deleteSystemSetting i s = (False, s)))"
  by (simp add: delete_defs get_defs Map_get_delete_same Map_has_iff_get Map_delete_absent)

theorem delete_then_get_witness:
  "(getUser ''u9'' exampleStore = None \<and> deleteUser ''u9'' exampleStore = (False, exampleStore)) \<and>
   (getStudent ''u9'' exampleStore = None \<and> deleteStudent ''u9'' exampleStore = (False, exampleStore)) \<and>
   (getClass ''u9'' exampleStore = None \<and> deleteClass ''u9'' exampleStore = (False, exampleStore)) \<and>
   (getFee ''u9'' exampleStore = None \<and> deleteFee ''u9'' exampleStore = (False, exampleStore)) \<and>
   (getHomework ''u9'' exampleStore = None \<and>
      deleteHomework ''u9'' exampleStore = (False, exampleStore)) \<and>
   (getAnnouncement ''u9'' exampleStore = None \<and>
      deleteAnnouncement ''u9'' exampleStore = (False, exampleStore)) \<and>
   (getSystemSetting ''u9'' exampleStore = None \<and>
      deleteSystemSetting ''u9'' exampleStore = (False, exampleStore)) \<and>
   getStudent ''u2'' exampleStore \<noteq> None \<and> fst (deleteStudent ''u2'' exampleStore) \<and>
   getStudent ''u2'' (snd (deleteStudent ''u2'' exampleStore)) = None"
proof -
  have absent:
    "getUser ''u9'' exampleStore = None" "getStudent ''u9'' exampleStore = None"
    "getClass ''u9'' exampleStore = None" "getFee ''u9'' exampleStore = None"
    "getHomework ''u9'' exampleStore = None" "getAnnouncement ''u9'' exampleStore = None"
    "getSystemSetting ''u9'' exampleStore = None"
    by (simp_all add: get_defs Map_get_absent exampleStore_users exampleStore_students
          exampleStore_classes exampleStore_fees exampleStore_homework exampleStore_empty)
  have present: "getStudent ''u2'' exampleStore \<noteq> None"
    by (simp add: getStudent_def Map_get_present exampleStore_students)
  show ?thesis
    using delete_then_get [where i = "''u9''" and s = exampleStore]
      delete_then_get [where i = "''u2''" and s = exampleStore]
      absent present
    by simp
qed

text \<open>
  C5. \<open>deleteStudent\<close> touches the student collection only: the fee collection (and every
  other collection) is what it was, \<open>getFeesByStudent\<close> answers as before for every student
  identifier, and every stored fee that names the deleted student is still returned.
\<close>

theorem deleteStudent_no_cascade:
  "(case deleteStudent i s of (removed, s') \<Rightarrow>
      fees s' = fees s \<and> users s' = users s \<and> classes s' = classes s \<and>
      attendance s' = attendance s \<and> homework s' = homework s \<and>
      homeworkSubmissions s' = homeworkSubmissions s \<and> announcements s' = announcements s \<and>
      systemLogs s' = systemLogs s \<and> systemSettings s' = systemSettings s \<and>
      getFeesByStudent j s' = getFeesByStudent j s \<and>
      (\<forall>fee \<in> set (Map_values (fees s)).
         getprop fee ''studentId'' = JStr i \<longrightarrow> fee \<in> set (getFeesByStudent i s')))"
  by (simp add: deleteStudent_def getFeesByStudent_def)


theorem deleteStudent_no_cascade_witness:
  "hd (Map_values (fees exampleStore)) \<in> set (Map_values (fees exampleStore)) \<and>
   getprop (hd (Map_values (fees exampleStore))) ''studentId'' = JStr ''u2'' \<and>
   fst (deleteStudent ''u2'' exampleStore) \<and>
   hd (Map_values (fees exampleStore))
     \<in> set (getFeesByStudent ''u2'' (snd (deleteStudent ''u2'' exampleStore)))"
proof -
  have "hd (Map_values (fees exampleStore)) \<in> set (Map_values (fees exampleStore))"
    by (simp add: exampleStore_fees Map_values_def)
  moreover have "getprop (hd (Map_values (fees exampleStore))) ''studentId'' = JStr ''u2''"
    by (simp add: exampleStore_fees Map_values_def getprop_def)
  moreover have "fst (deleteStudent ''u2'' exampleStore)"
    by (simp add: deleteStudent_def Map_has_def exampleStore_students)
  moreover note deleteStudent_no_cascade [where i = "''u2''" and s = exampleStore and j = "''u2''"]
  ultimately show ?thesis
    unfolding split_beta by blast
qed


section \<open>Update\<close>

text \<open>
  C7, as the code has it. For each of the nine kinds with an update method: when no record
  is stored under the identifier, the method returns \<open>undefined\<close> and the store is left as
  it was; when a record \<open>e\<close> is stored, the method returns the shallow merge \<open>e ++ p\<close> (each
  property of the patch replaces that of \<open>e\<close>, the other properties of \<open>e\<close> stay) and a get
  then returns the same record. \<open>updateSystemSetting\<close> differs in one way: after merging it
  sets \<open>updatedAt\<close> to the time of the call, whatever the patch says about that field.
\<close>

theorem update_merges:
  "((getUser i s = None \<longrightarrow> updateUser i p s = (None, s)) \<and>
    (getUser i s = Some e \<longrightarrow>
       (case updateUser i p s of (r, s') \<Rightarrow> r = Some (e ++ p) \<and> getUser i s' = r))) \<and>
   ((getStudent i s = None \<longrightarrow> updateStudent i p s = (None, s)) \<and>
    (getStudent i s = Some e \<longrightarrow>
       (case updateStudent i p s of (r, s') \<Rightarrow> r = Some (e ++ p) \<and> getStudent i s' = r))) \<and>
   ((getClass i s = None \<longrightarrow> updateClass i p s = (None, s)) \<and>
    (getClass i s = Some e \<longrightarrow>
       (case updateClass i p s of (r, s') \<Rightarrow> r = Some (e ++ p) \<and> getClass i s' = r))) \<and>
   ((getAttendance i s = None \<longrightarrow> updateAttendance i p s = (None, s)) \<and>
    (getAttendance i s = Some e \<longrightarrow>
       (case updateAttendance i p s of (r, s') \<Rightarrow> r = Some (e ++ p) \<and> getAttendance i s' = r))) \<and>
   ((getFee i s = None \<longrightarrow> updateFee i p s = (None, s)) \<and>
    (getFee i s = Some e \<longrightarrow>
       (case updateFee i p s of (r, s') \<Rightarrow> r = Some (e ++ p) \<and> getFee i s' = r))) \<and>
   ((getHomework i s = None \<longrightarrow> updateHomework i p s = (None, s)) \<and>
    (getHomework i s = Some e \<longrightarrow>
       (case updateHomework i p s of (r, s') \<Rightarrow> r = Some (e ++ p) \<and> getHomework i s' = r))) \<and>
   ((getHomeworkSubmission i s = None \<longrightarrow> updateHomeworkSubmission i p s = (None, s)) \<and>
    (getHomeworkSubmission i s = Some e \<longrightarrow>
       (case updateHomeworkSubmission i p s of (r, s') \<Rightarrow> r = Some (e ++ p) \<and> getHomeworkSubmission i s' = r))) \<and>
   ((getAnnouncement i s = None \<longrightarrow> updateAnnouncement i p s = (None, s)) \<and>
    (getAnnouncement i s = Some e \<longrightarrow>
       (case updateAnnouncement i p s of (r, s') \<Rightarrow> r = Some (e ++ p) \<and> getAnnouncement i s' = r))) \<and>
   ((getSystemSetting i s = None \<longrightarrow> updateSystemSetting i now p s = (None, s)) \<and>
    (getSystemSetting i s = Some e \<longrightarrow>
       (case updateSystemSetting i now p s of (r, s') \<Rightarrow>
          r = Some ((e ++ p)(''updatedAt'' \<mapsto> JDate now)) \<and> getSystemSetting i s' = r)))"
  by (simp add: update_defs get_defs Let_def Map_get_set_same)

theorem update_merges_witness:
  "(getUser ''u99'' populatedStore = None \<and>
      updateUser ''u99'' [''name'' \<mapsto> JStr ''Sarah J. Johnson''] populatedStore = (None, populatedStore) \<and>
      getUser ''u1'' populatedStore \<noteq> None \<and>
      fst (updateUser ''u1'' [''name'' \<mapsto> JStr ''Sarah J. Johnson''] populatedStore) =
        Some (the (getUser ''u1'' populatedStore) ++ [''name'' \<mapsto> JStr ''Sarah J. Johnson''])) \<and>
   (getStudent ''u99'' populatedStore = None \<and>
      updateStudent ''u99'' [''grade'' \<mapsto> JStr ''Grade 11''] populatedStore = (None, populatedStore) \<and>
      getStudent ''u2'' populatedStore \<noteq> None \<and>
      fst (updateStudent ''u2'' [''grade'' \<mapsto> JStr ''Grade 11''] populatedStore) =
        Some (the (getStudent ''u2'' populatedStore) ++ [''grade'' \<mapsto> JStr ''Grade 11''])) \<and>
   (getClass ''u99'' populatedStore = None \<and>
      updateClass ''u99'' [''feeAmount'' \<mapsto> JStr ''275.00''] populatedStore = (None, populatedStore) \<and>
      getClass ''u4'' populatedStore \<noteq> None \<and>
      fst (updateClass ''u4'' [''feeAmount'' \<mapsto> JStr ''275.00''] populatedStore) =
        Some (the (getClass ''u4'' populatedStore) ++ [''feeAmount'' \<mapsto> JStr ''275.00''])) \<and>
   (getAttendance ''u99'' populatedStore = None \<and>
      updateAttendance ''u99'' [''status'' \<mapsto> JStr ''late''] populatedStore = (None, populatedStore) \<and>
      getAttendance ''u7'' populatedStore \<noteq> None \<and>
      fst (updateAttendance ''u7'' [''status'' \<mapsto> JStr ''late''] populatedStore) =
        Some (the (getAttendance ''u7'' populatedStore) ++ [''status'' \<mapsto> JStr ''late''])) \<and>
   (getFee ''u99'' populatedStore = None \<and>
      updateFee ''u99'' [''status'' \<mapsto> JStr ''overdue''] populatedStore = (None, populatedStore) \<and>
      getFee ''u5'' populatedStore \<noteq> None \<and>
      fst (updateFee ''u5'' [''status'' \<mapsto> JStr ''overdue''] populatedStore) =
        Some (the (getFee ''u5'' populatedStore) ++ [''status'' \<mapsto> JStr ''overdue''])) \<and>
   (getHomework ''u99'' populatedStore = None \<and>
      updateHomework ''u99'' [''status'' \<mapsto> JStr ''completed''] populatedStore = (None, populatedStore) \<and>
      getHomework ''u6'' populatedStore \<noteq> None \<and>
      fst (updateHomework ''u6'' [''status'' \<mapsto> JStr ''completed''] populatedStore) =
        Some (the (getHomework ''u6'' populatedStore) ++ [''status'' \<mapsto> JStr ''completed''])) \<and>
   (getHomeworkSubmission ''u99'' populatedStore = None \<and>
      updateHomeworkSubmission ''u99'' [''grade'' \<mapsto> JNum 90] populatedStore = (None, populatedStore) \<and>
      getHomeworkSubmission ''u8'' populatedStore \<noteq> None \<and>
      fst (updateHomeworkSubmission ''u8'' [''grade'' \<mapsto> JNum 90] populatedStore) =
        Some (the (getHomeworkSubmission ''u8'' populatedStore) ++ [''grade'' \<mapsto> JNum 90])) \<and>
   (getAnnouncement ''u99'' populatedStore = None \<and>
      updateAnnouncement ''u99'' [''isImportant'' \<mapsto> JBool True] populatedStore = (None, populatedStore) \<and>
      getAnnouncement ''u9'' populatedStore \<noteq> None \<and>
      fst (updateAnnouncement ''u9'' [''isImportant'' \<mapsto> JBool True] populatedStore) =
        Some (the (getAnnouncement ''u9'' populatedStore) ++ [''isImportant'' \<mapsto> JBool True])) \<and>
   (getSystemSetting ''u99'' populatedStore = None \<and>
      updateSystemSetting ''u99'' 1730592000200 [''value'' \<mapsto> JStr ''TutorEase''] populatedStore
        = (None, populatedStore) \<and>
      getSystemSetting ''u10'' populatedStore \<noteq> None \<and>
      fst (updateSystemSetting ''u10'' 1730592000200 [''value'' \<mapsto> JStr ''TutorEase''] populatedStore) =
        Some ((the (getSystemSetting ''u10'' populatedStore) ++ [''value'' \<mapsto> JStr ''TutorEase''])
                (''updatedAt'' \<mapsto> JDate 1730592000200)))"
proof -
  have k0: "(getUser ''u99'' populatedStore = None \<and>
      updateUser ''u99'' [''name'' \<mapsto> JStr ''Sarah J. Johnson''] populatedStore = (None, populatedStore) \<and>
      getUser ''u1'' populatedStore \<noteq> None \<and>
      fst (updateUser ''u1'' [''name'' \<mapsto> JStr ''Sarah J. Johnson''] populatedStore) =
        Some (the (getUser ''u1'' populatedStore) ++ [''name'' \<mapsto> JStr ''Sarah J. Johnson'']))"
    using update_merges [where i = "''u99''" and s = populatedStore and p = "[''name'' \<mapsto> JStr ''Sarah J. Johnson'']"]
      update_merges [where i = "''u1''" and s = populatedStore and p = "[''name'' \<mapsto> JStr ''Sarah J. Johnson'']"
        and e = "the (getUser ''u1'' populatedStore)"]
      populatedStore_absent populatedStore_present
    by (simp add: split_beta)
  have k1: "(getStudent ''u99'' populatedStore = None \<and>
      updateStudent ''u99'' [''grade'' \<mapsto> JStr ''Grade 11''] populatedStore = (None, populatedStore) \<and>
      getStudent ''u2'' populatedStore \<noteq> None \<and>
      fst (updateStudent ''u2'' [''grade'' \<mapsto> JStr ''Grade 11''] populatedStore) =
        Some (the (getStudent ''u2'' populatedStore) ++ [''grade'' \<mapsto> JStr ''Grade 11'']))"
    using update_merges [where i = "''u99''" and s = populatedStore and p = "[''grade'' \<mapsto> JStr ''Grade 11'']"]
      update_merges [where i = "''u2''" and s = populatedStore and p = "[''grade'' \<mapsto> JStr ''Grade 11'']"
        and e = "the (getStudent ''u2'' populatedStore)"]
      populatedStore_absent populatedStore_present
    by (simp add: split_beta)
  have k2: "(getClass ''u99'' populatedStore = None \<and>
      updateClass ''u99'' [''feeAmount'' \<mapsto> JStr ''275.00''] populatedStore = (None, populatedStore) \<and>
      getClass ''u4'' populatedStore \<noteq> None \<and>
      fst (updateClass ''u4'' [''feeAmount'' \<mapsto> JStr ''275.00''] populatedStore) =
        Some (the (getClass ''u4'' populatedStore) ++ [''feeAmount'' \<mapsto> JStr ''275.00'']))"
    using update_merges [where i = "''u99''" and s = populatedStore and p = "[''feeAmount'' \<mapsto> JStr ''275.00'']"]
      update_merges [where i = "''u4''" and s = populatedStore and p = "[''feeAmount'' \<mapsto> JStr ''275.00'']"
        and e = "the (getClass ''u4'' populatedStore)"]
      populatedStore_absent populatedStore_present
    by (simp add: split_beta)
  have k3: "(getAttendance ''u99'' populatedStore = None \<and>
      updateAttendance ''u99'' [''status'' \<mapsto> JStr ''late''] populatedStore = (None, populatedStore) \<and>
      getAttendance ''u7'' populatedStore \<noteq> None \<and>
      fst (updateAttendance ''u7'' [''status'' \<mapsto> JStr ''late''] populatedStore) =
        Some (the (getAttendance ''u7'' populatedStore) ++ [''status'' \<mapsto> JStr ''late'']))"
    using update_merges [where i = "''u99''" and s = populatedStore and p = "[''status'' \<mapsto> JStr ''late'']"]
      update_merges [where i = "''u7''" and s = populatedStore and p = "[''status'' \<mapsto> JStr ''late'']"
        and e = "the (getAttendance ''u7'' populatedStore)"]
      populatedStore_absent populatedStore_present
    by (simp add: split_beta)
  have k4: "(getFee ''u99'' populatedStore = None \<and>
      updateFee ''u99'' [''status'' \<mapsto> JStr ''overdue''] populatedStore = (None, populatedStore) \<and>
      getFee ''u5'' populatedStore \<noteq> None \<and>
      fst (updateFee ''u5'' [''status'' \<mapsto> JStr ''overdue''] populatedStore) =
        Some (the (getFee ''u5'' populatedStore) ++ [''status'' \<mapsto> JStr ''overdue'']))"
    using update_merges [where i = "''u99''" and s = populatedStore and p = "[''status'' \<mapsto> JStr ''overdue'']"]
      update_merges [where i = "''u5''" and s = populatedStore and p = "[''status'' \<mapsto> JStr ''overdue'']"
        and e = "the (getFee ''u5'' populatedStore)"]
      populatedStore_absent populatedStore_present
    by (simp add: split_beta)
  have k5: "(getHomework ''u99'' populatedStore = None \<and>
      updateHomework ''u99'' [''status'' \<mapsto> JStr ''completed''] populatedStore = (None, populatedStore) \<and>
      getHomework ''u6'' populatedStore \<noteq> None \<and>
      fst (updateHomework ''u6'' [''status'' \<mapsto> JStr ''completed''] populatedStore) =
        Some (the (getHomework ''u6'' populatedStore) ++ [''status'' \<mapsto> JStr ''completed'']))"
    using update_merges [where i = "''u99''" and s = populatedStore and p = "[''status'' \<mapsto> JStr ''completed'']"]
      update_merges [where i = "''u6''" and s = populatedStore and p = "[''status'' \<mapsto> JStr ''completed'']"
        and e = "the (getHomework ''u6'' populatedStore)"]
      populatedStore_absent populatedStore_present
    by (simp add: split_beta)
  have k6: "(getHomeworkSubmission ''u99'' populatedStore = None \<and>
      updateHomeworkSubmission ''u99'' [''grade'' \<mapsto> JNum 90] populatedStore = (None, populatedStore) \<and>
      getHomeworkSubmission ''u8'' populatedStore \<noteq> None \<and>
      fst (updateHomeworkSubmission ''u8'' [''grade'' \<mapsto> JNum 90] populatedStore) =
        Some (the (getHomeworkSubmission ''u8'' populatedStore) ++ [''grade'' \<mapsto> JNum 90]))"
    using update_merges [where i = "''u99''" and s = populatedStore and p = "[''grade'' \<mapsto> JNum 90]"]
      update_merges [where i = "''u8''" and s = populatedStore and p = "[''grade'' \<mapsto> JNum 90]"
        and e = "the (getHomeworkSubmission ''u8'' populatedStore)"]
      populatedStore_absent populatedStore_present
    by (simp add: split_beta)
  have k7: "(getAnnouncement ''u99'' populatedStore = None \<and>
      updateAnnouncement ''u99'' [''isImportant'' \<mapsto> JBool True] populatedStore = (None, populatedStore) \<and>
      getAnnouncement ''u9'' populatedStore \<noteq> None \<and>
      fst (updateAnnouncement ''u9'' [''isImportant'' \<mapsto> JBool True] populatedStore) =
        Some (the (getAnnouncement ''u9'' populatedStore) ++ [''isImportant'' \<mapsto> JBool True]))"
    using update_merges [where i = "''u99''" and s = populatedStore and p = "[''isImportant'' \<mapsto> JBool True]"]
      update_merges [where i = "''u9''" and s = populatedStore and p = "[''isImportant'' \<mapsto> JBool True]"
        and e = "the (getAnnouncement ''u9'' populatedStore)"]
      populatedStore_absent populatedStore_present
    by (simp add: split_beta)
  have k8: "(getSystemSetting ''u99'' populatedStore = None \<and>
      updateSystemSetting ''u99'' 1730592000200 [''value'' \<mapsto> JStr ''TutorEase''] populatedStore
        = (None, populatedStore) \<and>
      getSystemSetting ''u10'' populatedStore \<noteq> None \<and>
      fst (updateSystemSetting ''u10'' 1730592000200 [''value'' \<mapsto> JStr ''TutorEase''] populatedStore) =
        Some ((the (getSystemSetting ''u10'' populatedStore) ++ [''value'' \<mapsto> JStr ''TutorEase''])
                (''updatedAt'' \<mapsto> JDate 1730592000200)))"
    using update_merges [where i = "''u99''" and s = populatedStore and now = 1730592000200
        and p = "[''value'' \<mapsto> JStr ''TutorEase'']"]
      update_merges [where i = "''u10''" and s = populatedStore and now = 1730592000200
        and p = "[''value'' \<mapsto> JStr ''TutorEase'']"
        and e = "the (getSystemSetting ''u10'' populatedStore)"]
      populatedStore_absent populatedStore_present
    by (simp add: split_beta)
  from k0 k1 k2 k3 k4 k5 k6 k7 k8 show ?thesis by blast
qed

text \<open>
  C7 as stated fails for system settings: a patch of \<open>value\<close> and \<open>description\<close> leaves
  \<open>updatedAt\<close> out, yet the record returned is not the merge of the stored record and the
  patch, because \<open>updatedAt\<close> has been replaced by the time of the call.
\<close>

theorem updateSystemSetting_not_plain_merge:
  "getSystemSetting ''u10'' populatedStore =
     Some [''key'' \<mapsto> JStr ''site_name'', ''value'' \<mapsto> JStr ''EduManage'',
           ''category'' \<mapsto> JStr ''general'', ''id'' \<mapsto> JStr ''u10'',
           ''updatedAt'' \<mapsto> JDate 1730592000103] \<and>
   fst (updateSystemSetting ''u10'' 1730592000200
          [''value'' \<mapsto> JStr ''TutorEase'', ''description'' \<mapsto> JStr ''Display name'']
          populatedStore)
     \<noteq> Some ([''key'' \<mapsto> JStr ''site_name'', ''value'' \<mapsto> JStr ''EduManage'',
                ''category'' \<mapsto> JStr ''general'', ''id'' \<mapsto> JStr ''u10'',
                ''updatedAt'' \<mapsto> JDate 1730592000103]
               ++ [''value'' \<mapsto> JStr ''TutorEase'', ''description'' \<mapsto> JStr ''Display name''])"
proof -
  let ?e = "[''key'' \<mapsto> JStr ''site_name'', ''value'' \<mapsto> JStr ''EduManage'',
             ''category'' \<mapsto> JStr ''general'', ''id'' \<mapsto> JStr ''u10'',
             ''updatedAt'' \<mapsto> JDate 1730592000103]"
  let ?p = "[''value'' \<mapsto> JStr ''TutorEase'', ''description'' \<mapsto> JStr ''Display name'']"
  have "((?e ++ ?p)(''updatedAt'' \<mapsto> JDate 1730592000200)) ''updatedAt''
          \<noteq> (?e ++ ?p) ''updatedAt''"
    by simp
  then have "(?e ++ ?p)(''updatedAt'' \<mapsto> JDate 1730592000200) \<noteq> ?e ++ ?p"
    by metis
  then show ?thesis
    by (simp add: populatedStore_setting updateSystemSetting_def Let_def
          getSystemSetting_def [symmetric])
qed


text \<open>
  C1, as the code has it. For each kind but the system setting, updating a stored record
  with a patch of the single property \<open>f\<close> leaves a stored record that has \<open>v\<close> at \<open>f\<close> and
  agrees with the record before on every other property. \<open>updateSystemSetting\<close> does the
  same for every property other than \<open>updatedAt\<close>, which it sets to the time of the call.
\<close>

theorem update_single_field:
  "(getUser i s = Some e \<longrightarrow>
      (\<exists>r. getUser i (snd (updateUser i [f \<mapsto> v] s)) = Some r \<and> r f = Some v \<and>
           (\<forall>g. g \<noteq> f \<longrightarrow> r g = e g))) \<and>
   (getStudent i s = Some e \<longrightarrow>
      (\<exists>r. getStudent i (snd (updateStudent i [f \<mapsto> v] s)) = Some r \<and> r f = Some v \<and>
           (\<forall>g. g \<noteq> f \<longrightarrow> r g = e g))) \<and>
   (getClass i s = Some e \<longrightarrow>
      (\<exists>r. getClass i (snd (updateClass i [f \<mapsto> v] s)) = Some r \<and> r f = Some v \<and>
           (\<forall>g. g \<noteq> f \<longrightarrow> r g = e g))) \<and>
   (getAttendance i s = Some e \<longrightarrow>
      (\<exists>r. getAttendance i (snd (updateAttendance i [f \<mapsto> v] s)) = Some r \<and> r f = Some v \<and>
           (\<forall>g. g \<noteq> f \<longrightarrow> r g = e g))) \<and>
   (getFee i s = Some e \<longrightarrow>
      (\<exists>r. getFee i (snd (updateFee i [f \<mapsto> v] s)) = Some r \<and> r f = Some v \<and>
           (\<forall>g. g \<noteq> f \<longrightarrow> r g = e g))) \<and>
   (getHomework i s = Some e \<longrightarrow>
      (\<exists>r. getHomework i (snd (updateHomework i [f \<mapsto> v] s)) = Some r \<and> r f = Some v \<and>
           (\<forall>g. g \<noteq> f \<longrightarrow> r g = e g))) \<and>
   (getHomeworkSubmission i s = Some e \<longrightarrow>
      (\<exists>r. getHomeworkSubmission i (snd (updateHomeworkSubmission i [f \<mapsto> v] s)) = Some r \<and> r f = Some v \<and>
           (\<forall>g. g \<noteq> f \<longrightarrow> r g = e g))) \<and>
   (getAnnouncement i s = Some e \<longrightarrow>
      (\<exists>r. getAnnouncement i (snd (updateAnnouncement i [f \<mapsto> v] s)) = Some r \<and> r f = Some v \<and>
           (\<forall>g. g \<noteq> f \<longrightarrow> r g = e g))) \<and>
   (getSystemSetting i s = Some e \<longrightarrow>
      (\<exists>r. getSystemSetting i (snd (updateSystemSetting i now [f \<mapsto> v] s)) = Some r \<and>
           r ''updatedAt'' = Some (JDate now) \<and>
           (f \<noteq> ''updatedAt'' \<longrightarrow> r f = Some v) \<and>
           (\<forall>g. g \<noteq> f \<and> g \<noteq> ''updatedAt'' \<longrightarrow> r g = e g)))"
  by (simp add: update_defs get_defs Let_def Map_get_set_same)

theorem update_single_field_witness:
  "(getUser ''u1'' populatedStore \<noteq> None \<and>
      getprop (the (getUser ''u1'' (snd (updateUser ''u1'' [''name'' \<mapsto> JStr ''Sarah J. Johnson''] populatedStore)))) ''name'' = JStr ''Sarah J. Johnson'' \<and>
      the (getUser ''u1'' (snd (updateUser ''u1'' [''name'' \<mapsto> JStr ''Sarah J. Johnson''] populatedStore))) ''email'' =
        the (getUser ''u1'' populatedStore) ''email'') \<and>
   (getStudent ''u2'' populatedStore \<noteq> None \<and>
      getprop (the (getStudent ''u2'' (snd (updateStudent ''u2'' [''grade'' \<mapsto> JStr ''Grade 11''] populatedStore)))) ''grade'' = JStr ''Grade 11'' \<and>
      the (getStudent ''u2'' (snd (updateStudent ''u2'' [''grade'' \<mapsto> JStr ''Grade 11''] populatedStore))) ''name'' =
        the (getStudent ''u2'' populatedStore) ''name'') \<and>
   (getClass ''u4'' populatedStore \<noteq> None \<and>
      getprop (the (getClass ''u4'' (snd (updateClass ''u4'' [''feeAmount'' \<mapsto> JStr ''275.00''] populatedStore)))) ''feeAmount'' = JStr ''275.00'' \<and>
      the (getClass ''u4'' (snd (updateClass ''u4'' [''feeAmount'' \<mapsto> JStr ''275.00''] populatedStore))) ''subject'' =
        the (getClass ''u4'' populatedStore) ''subject'') \<and>
   (getAttendance ''u7'' populatedStore \<noteq> None \<and>
      getprop (the (getAttendance ''u7'' (snd (updateAttendance ''u7'' [''status'' \<mapsto> JStr ''late''] populatedStore)))) ''status'' = JStr ''late'' \<and>
      the (getAttendance ''u7'' (snd (updateAttendance ''u7'' [''status'' \<mapsto> JStr ''late''] populatedStore))) ''studentId'' =
        the (getAttendance ''u7'' populatedStore) ''studentId'') \<and>
   (getFee ''u5'' populatedStore \<noteq> None \<and>
      getprop (the (getFee ''u5'' (snd (updateFee ''u5'' [''status'' \<mapsto> JStr ''overdue''] populatedStore)))) ''status'' = JStr ''overdue'' \<and>
      the (getFee ''u5'' (snd (updateFee ''u5'' [''status'' \<mapsto> JStr ''overdue''] populatedStore))) ''amount'' =
        the (getFee ''u5'' populatedStore) ''amount'') \<and>
   (getHomework ''u6'' populatedStore \<noteq> None \<and>
      getprop (the (getHomework ''u6'' (snd (updateHomework ''u6'' [''status'' \<mapsto> JStr ''completed''] populatedStore)))) ''status'' = JStr ''completed'' \<and>
      the (getHomework ''u6'' (snd (updateHomework ''u6'' [''status'' \<mapsto> JStr ''completed''] populatedStore))) ''title'' =
        the (getHomework ''u6'' populatedStore) ''title'') \<and>
   (getHomeworkSubmission ''u8'' populatedStore \<noteq> None \<and>
      getprop (the (getHomeworkSubmission ''u8'' (snd (updateHomeworkSubmission ''u8'' [''grade'' \<mapsto> JNum 90] populatedStore)))) ''grade'' = JNum 90 \<and>
      the (getHomeworkSubmission ''u8'' (snd (updateHomeworkSubmission ''u8'' [''grade'' \<mapsto> JNum 90] populatedStore))) ''studentId'' =
        the (getHomeworkSubmission ''u8'' populatedStore) ''studentId'') \<and>
   (getAnnouncement ''u9'' populatedStore \<noteq> None \<and>
      getprop (the (getAnnouncement ''u9'' (snd (updateAnnouncement ''u9'' [''isImportant'' \<mapsto> JBool True] populatedStore)))) ''isImportant'' = JBool True \<and>
      the (getAnnouncement ''u9'' (snd (updateAnnouncement ''u9'' [''isImportant'' \<mapsto> JBool True] populatedStore))) ''title'' =
        the (getAnnouncement ''u9'' populatedStore) ''title'') \<and>
   (getSystemSetting ''u10'' populatedStore \<noteq> None \<and>
      getprop (the (getSystemSetting ''u10'' (snd (updateSystemSetting ''u10'' 1730592000200
         [''value'' \<mapsto> JStr ''TutorEase''] populatedStore)))) ''value'' = JStr ''TutorEase'' \<and>
      the (getSystemSetting ''u10'' (snd (updateSystemSetting ''u10'' 1730592000200
         [''value'' \<mapsto> JStr ''TutorEase''] populatedStore))) ''key'' =
        the (getSystemSetting ''u10'' populatedStore) ''key'')"
proof -
  have k0: "(getUser ''u1'' populatedStore \<noteq> None \<and>
      getprop (the (getUser ''u1'' (snd (updateUser ''u1'' [''name'' \<mapsto> JStr ''Sarah J. Johnson''] populatedStore)))) ''name'' = JStr ''Sarah J. Johnson'' \<and>
      the (getUser ''u1'' (snd (updateUser ''u1'' [''name'' \<mapsto> JStr ''Sarah J. Johnson''] populatedStore))) ''email'' =
        the (getUser ''u1'' populatedStore) ''email'')"
  proof -
    have p: "getUser ''u1'' populatedStore = Some (the (getUser ''u1'' populatedStore))"
      using populatedStore_present by simp
    from update_single_field [where i = "''u1''" and s = populatedStore and f = "''name''"
        and v = "JStr ''Sarah J. Johnson''" and e = "the (getUser ''u1'' populatedStore)", THEN conjunct1, THEN mp, OF p]
    obtain r where "getUser ''u1'' (snd (updateUser ''u1'' [''name'' \<mapsto> JStr ''Sarah J. Johnson''] populatedStore)) = Some r"
      and "r ''name'' = Some (JStr ''Sarah J. Johnson'')" and "\<forall>g. g \<noteq> ''name'' \<longrightarrow> r g = the (getUser ''u1'' populatedStore) g"
      by blast
    with populatedStore_present show ?thesis by (simp add: getprop_def)
  qed
  have k1: "(getStudent ''u2'' populatedStore \<noteq> None \<and>
      getprop (the (getStudent ''u2'' (snd (updateStudent ''u2'' [''grade'' \<mapsto> JStr ''Grade 11''] populatedStore)))) ''grade'' = JStr ''Grade 11'' \<and>
      the (getStudent ''u2'' (snd (updateStudent ''u2'' [''grade'' \<mapsto> JStr ''Grade 11''] populatedStore))) ''name'' =
        the (getStudent ''u2'' populatedStore) ''name'')"
  proof -
    have p: "getStudent ''u2'' populatedStore = Some (the (getStudent ''u2'' populatedStore))"
      using populatedStore_present by simp
    from update_single_field [where i = "''u2''" and s = populatedStore and f = "''grade''"
        and v = "JStr ''Grade 11''" and e = "the (getStudent ''u2'' populatedStore)", THEN conjunct2, THEN conjunct1, THEN mp, OF p]
    obtain r where "getStudent ''u2'' (snd (updateStudent ''u2'' [''grade'' \<mapsto> JStr ''Grade 11''] populatedStore)) = Some r"
      and "r ''grade'' = Some (JStr ''Grade 11'')" and "\<forall>g. g \<noteq> ''grade'' \<longrightarrow> r g = the (getStudent ''u2'' populatedStore) g"
      by blast
    with populatedStore_present show ?thesis by (simp add: getprop_def)
  qed
  have k2: "(getClass ''u4'' populatedStore \<noteq> None \<and>
      getprop (the (getClass ''u4'' (snd (updateClass ''u4'' [''feeAmount'' \<mapsto> JStr ''275.00''] populatedStore)))) ''feeAmount'' = JStr ''275.00'' \<and>
      the (getClass ''u4'' (snd (updateClass ''u4'' [''feeAmount'' \<mapsto> JStr ''275.00''] populatedStore))) ''subject'' =
        the (getClass ''u4'' populatedStore) ''subject'')"
  proof -
    have p: "getClass ''u4'' populatedStore = Some (the (getClass ''u4'' populatedStore))"
      using populatedStore_present by simp
    from update_single_field [where i = "''u4''" and s = populatedStore and f = "''feeAmount''"
        and v = "JStr ''275.00''" and e = "the (getClass ''u4'' populatedStore)", THEN conjunct2, THEN conjunct2, THEN conjunct1, THEN mp, OF p]
    obtain r where "getClass ''u4'' (snd (updateClass ''u4'' [''feeAmount'' \<mapsto> JStr ''275.00''] populatedStore)) = Some r"
      and "r ''feeAmount'' = Some (JStr ''275.00'')" and "\<forall>g. g \<noteq> ''feeAmount'' \<longrightarrow> r g = the (getClass ''u4'' populatedStore) g"
      by blast
    with populatedStore_present show ?thesis by (simp add: getprop_def)
  qed
  have k3: "(getAttendance ''u7'' populatedStore \<noteq> None \<and>
      getprop (the (getAttendance ''u7'' (snd (updateAttendance ''u7'' [''status'' \<mapsto> JStr ''late''] populatedStore)))) ''status'' = JStr ''late'' \<and>
      the (getAttendance ''u7'' (snd (updateAttendance ''u7'' [''status'' \<mapsto> JStr ''late''] populatedStore))) ''studentId'' =
        the (getAttendance ''u7'' populatedStore) ''studentId'')"
  proof -
    have p: "getAttendance ''u7'' populatedStore = Some (the (getAttendance ''u7'' populatedStore))"
      using populatedStore_present by simp
    from update_single_field [where i = "''u7''" and s = populatedStore and f = "''status''"
        and v = "JStr ''late''" and e = "the (getAttendance ''u7'' populatedStore)", THEN conjunct2, THEN conjunct2, THEN conjunct2, THEN conjunct1, THEN mp, OF p]
    obtain r where "getAttendance ''u7'' (snd (updateAttendance ''u7'' [''status'' \<mapsto> JStr ''late''] populatedStore)) = Some r"
      and "r ''status'' = Some (JStr ''late'')" and "\<forall>g. g \<noteq> ''status'' \<longrightarrow> r g = the (getAttendance ''u7'' populatedStore) g"
      by blast
    with populatedStore_present show ?thesis by (simp add: getprop_def)
  qed
  have k4: "(getFee ''u5'' populatedStore \<noteq> None \<and>
      getprop (the (getFee ''u5'' (snd (updateFee ''u5'' [''status'' \<mapsto> JStr ''overdue''] populatedStore)))) ''status'' = JStr ''overdue'' \<and>
      the (getFee ''u5'' (snd (updateFee ''u5'' [''status'' \<mapsto> JStr ''overdue''] populatedStore))) ''amount'' =
        the (getFee ''u5'' populatedStore) ''amount'')"
  proof -
    have p: "getFee ''u5'' populatedStore = Some (the (getFee ''u5'' populatedStore))"
      using populatedStore_present by simp
    from update_single_field [where i = "''u5''" and s = populatedStore and f = "''status''"
        and v = "JStr ''overdue''" and e = "the (getFee ''u5'' populatedStore)", THEN conjunct2, THEN conjunct2, THEN conjunct2, THEN conjunct2, THEN conjunct1, THEN mp, OF p]
    obtain r where "getFee ''u5'' (snd (updateFee ''u5'' [''status'' \<mapsto> JStr ''overdue''] populatedStore)) = Some r"
      and "r ''status'' = Some (JStr ''overdue'')" and "\<forall>g. g \<noteq> ''status'' \<longrightarrow> r g = the (getFee ''u5'' populatedStore) g"
      by blast
    with populatedStore_present show ?thesis by (simp add: getprop_def)
  qed
  have k5: "(getHomework ''u6'' populatedStore \<noteq> None \<and>
      getprop (the (getHomework ''u6'' (snd (updateHomework ''u6'' [''status'' \<mapsto> JStr ''completed''] populatedStore)))) ''status'' = JStr ''completed'' \<and>
      the (getHomework ''u6'' (snd (updateHomework ''u6'' [''status'' \<mapsto> JStr ''completed''] populatedStore))) ''title'' =
        the (getHomework ''u6'' populatedStore) ''title'')"
  proof -
    have p: "getHomework ''u6'' populatedStore = Some (the (getHomework ''u6'' populatedStore))"
      using populatedStore_present by simp
    from update_single_field [where i = "''u6''" and s = populatedStore and f = "''status''"
        and v = "JStr ''completed''" and e = "the (getHomework ''u6'' populatedStore)", THEN conjunct2, THEN conjunct2, THEN conjunct2, THEN conjunct2, THEN conjunct2, THEN conjunct1, THEN mp, OF p]
    obtain r where "getHomework ''u6'' (snd (updateHomework ''u6'' [''status'' \<mapsto> JStr ''completed''] populatedStore)) = Some r"
      and "r ''status'' = Some (JStr ''completed'')" and "\<forall>g. g \<noteq> ''status'' \<longrightarrow> r g = the (getHomework ''u6'' populatedStore) g"
      by blast
    with populatedStore_present show ?thesis by (simp add: getprop_def)
  qed
  have k6: "(getHomeworkSubmission ''u8'' populatedStore \<noteq> None \<and>
      getprop (the (getHomeworkSubmission ''u8'' (snd (updateHomeworkSubmission ''u8'' [''grade'' \<mapsto> JNum 90] populatedStore)))) ''grade'' = JNum 90 \<and>
      the (getHomeworkSubmission ''u8'' (snd (updateHomeworkSubmission ''u8'' [''grade'' \<mapsto> JNum 90] populatedStore))) ''studentId'' =
        the (getHomeworkSubmission ''u8'' populatedStore) ''studentId'')"
  proof -
    have p: "getHomeworkSubmission ''u8'' populatedStore = Some (the (getHomeworkSubmission ''u8'' populatedStore))"
      using populatedStore_present by simp
    from update_single_field [where i = "''u8''" and s = populatedStore and f = "''grade''"
        and v = "JNum 90" and e = "the (getHomeworkSubmission ''u8'' populatedStore)", THEN conjunct2, THEN conjunct2, THEN conjunct2, THEN conjunct2, THEN conjunct2, THEN conjunct2, THEN conjunct1, THEN mp, OF p]
    obtain r where "getHomeworkSubmission ''u8'' (snd (updateHomeworkSubmission ''u8'' [''grade'' \<mapsto> JNum 90] populatedStore)) = Some r"
      and "r ''grade'' = Some (JNum 90)" and "\<forall>g. g \<noteq> ''grade'' \<longrightarrow> r g = the (getHomeworkSubmission ''u8'' populatedStore) g"
      by blast
    with populatedStore_present show ?thesis by (simp add: getprop_def)
  qed
  have k7: "(getAnnouncement ''u9'' populatedStore \<noteq> None \<and>
      getprop (the (getAnnouncement ''u9'' (snd (updateAnnouncement ''u9'' [''isImportant'' \<mapsto> JBool True] populatedStore)))) ''isImportant'' = JBool True \<and>
      the (getAnnouncement ''u9'' (snd (updateAnnouncement ''u9'' [''isImportant'' \<mapsto> JBool True] populatedStore))) ''title'' =
        the (getAnnouncement ''u9'' populatedStore) ''title'')"
  proof -
    have p: "getAnnouncement ''u9'' populatedStore = Some (the (getAnnouncement ''u9'' populatedStore))"
      using populatedStore_present by simp
    from update_single_field [where i = "''u9''" and s = populatedStore and f = "''isImportant''"
        and v = "JBool True" and e = "the (getAnnouncement ''u9'' populatedStore)", THEN conjunct2, THEN conjunct2, THEN conjunct2, THEN conjunct2, THEN conjunct2, THEN conjunct2, THEN conjunct2, THEN conjunct1, THEN mp, OF p]
    obtain r where "getAnnouncement ''u9'' (snd (updateAnnouncement ''u9'' [''isImportant'' \<mapsto> JBool True] populatedStore)) = Some r"
      and "r ''isImportant'' = Some (JBool True)" and "\<forall>g. g \<noteq> ''isImportant'' \<longrightarrow> r g = the (getAnnouncement ''u9'' populatedStore) g"
      by blast
    with populatedStore_present show ?thesis by (simp add: getprop_def)
  qed
  have k8: "(getSystemSetting ''u10'' populatedStore \<noteq> None \<and>
      getprop (the (getSystemSetting ''u10'' (snd (updateSystemSetting ''u10'' 1730592000200
         [''value'' \<mapsto> JStr ''TutorEase''] populatedStore)))) ''value'' = JStr ''TutorEase'' \<and>
      the (getSystemSetting ''u10'' (snd (updateSystemSetting ''u10'' 1730592000200
         [''value'' \<mapsto> JStr ''TutorEase''] populatedStore))) ''key'' =
        the (getSystemSetting ''u10'' populatedStore) ''key'')"
  proof -
    have p: "getSystemSetting ''u10'' populatedStore = Some (the (getSystemSetting ''u10'' populatedStore))"
      using populatedStore_present by simp
    from update_single_field [where i = "''u10''" and s = populatedStore and f = "''value''"
        and v = "JStr ''TutorEase''" and now = 1730592000200
        and e = "the (getSystemSetting ''u10'' populatedStore)", THEN conjunct2, THEN conjunct2, THEN conjunct2, THEN conjunct2, THEN conjunct2, THEN conjunct2, THEN conjunct2, THEN conjunct2, THEN mp, OF p]
    obtain r where "getSystemSetting ''u10'' (snd (updateSystemSetting ''u10'' 1730592000200
         [''value'' \<mapsto> JStr ''TutorEase''] populatedStore)) = Some r"
      and "''value'' \<noteq> ''updatedAt'' \<longrightarrow> r ''value'' = Some (JStr ''TutorEase'')"
      and "\<forall>g. g \<noteq> ''value'' \<and> g \<noteq> ''updatedAt'' \<longrightarrow> r g = the (getSystemSetting ''u10'' populatedStore) g"
      by blast
    with populatedStore_present show ?thesis by (simp add: getprop_def)
  qed
  from k0 k1 k2 k3 k4 k5 k6 k7 k8 show ?thesis by blast
qed

text \<open>
  C1 as stated fails for system settings: the patch names \<open>value\<close> only, and the stored
  record comes out with another \<open>updatedAt\<close> as well.
\<close>

theorem updateSystemSetting_touches_updatedAt:
  "getprop (the (getSystemSetting ''u10'' populatedStore)) ''updatedAt'' = JDate 1730592000103 \<and>
   getprop (the (getSystemSetting ''u10''
       (snd (updateSystemSetting ''u10'' 1730592000200 [''value'' \<mapsto> JStr ''TutorEase'']
               populatedStore)))) ''updatedAt'' = JDate 1730592000200"
proof -
  have "Map_get ''u10'' (systemSettings populatedStore) =
     Some [''key'' \<mapsto> JStr ''site_name'', ''value'' \<mapsto> JStr ''EduManage'',
           ''category'' \<mapsto> JStr ''general'', ''id'' \<mapsto> JStr ''u10'',
           ''updatedAt'' \<mapsto> JDate 1730592000103]"
    using populatedStore_setting by (simp add: getSystemSetting_def)
  then show ?thesis
    by (simp add: updateSystemSetting_def getSystemSetting_def Let_def getprop_def
          Map_get_set_same)
qed


section \<open>Bulk creation of attendance\<close>

lemma createAttendance_get_other:
  "i \<noteq> u \<Longrightarrow> getAttendance i (snd (createAttendance u t a s)) = getAttendance i s"
  by (simp add: createAttendance_def getAttendance_def Let_def Map_get_set_other)

lemma createAttendance_get_same:
  "getAttendance u (snd (createAttendance u t a s)) = Some (fst (createAttendance u t a s))"
  by (simp add: createAttendance_def getAttendance_def Let_def Map_get_set_same)

lemma fst_createAttendance_stamped:
  "fst (createAttendance (uuids k) (clock k) a s) = stamped uuids clock k a"
  by (simp add: createAttendance_def Let_def stamped_def)

lemma bulk_loop_results:
  "fst (bulkCreateAttendance_loop uuids clock k atts results s) =
     results @ map (\<lambda>j. stamped uuids clock (k + j) (atts ! j)) [0..<length atts]"
proof (induction atts arbitrary: k results s)
  case Nil
  then show ?case by simp
next
  case (Cons att rest)
  have "[0..<length (att # rest)] = 0 # map Suc [0..<length rest]"
    by (simp add: upt_conv_Cons map_Suc_upt del: upt_Suc)
  then show ?case
    by (simp add: Cons.IH split_beta fst_createAttendance_stamped comp_def del: upt_Suc)
qed

lemma bulk_loop_store:
  "snd (bulkCreateAttendance_loop uuids clock k atts results s) =
     foldl (\<lambda>st j. snd (createAttendance (uuids (k + j)) (clock (k + j)) (atts ! j) st)) s
       [0..<length atts]"
proof (induction atts arbitrary: k results s)
  case Nil
  then show ?case by simp
next
  case (Cons att rest)
  have "[0..<length (att # rest)] = 0 # map Suc [0..<length rest]"
    by (simp add: upt_conv_Cons map_Suc_upt del: upt_Suc)
  then show ?case
    by (simp add: Cons.IH split_beta foldl_map del: upt_Suc)
qed

lemma bulk_loop_get_other:
  "(\<And>j. j < length atts \<Longrightarrow> uuids (k + j) \<noteq> i) \<Longrightarrow>
   getAttendance i (snd (bulkCreateAttendance_loop uuids clock k atts results s)) = getAttendance i s"
proof (induction atts arbitrary: k results s)
  case Nil
  then show ?case by simp
next
  case (Cons att rest)
  have a: "uuids k \<noteq> i" using Cons.prems [of 0] by simp
  have b: "\<And>j. j < length rest \<Longrightarrow> uuids (Suc k + j) \<noteq> i"
    using Cons.prems [of "Suc j" for j] by simp
  show ?case
    using Cons.IH [OF b] a
    by (simp add: split_beta createAttendance_get_other)
qed

lemma bulk_loop_get_new:
  "inj_on uuids {k..<k + length atts} \<Longrightarrow> j < length atts \<Longrightarrow>
   getAttendance (uuids (k + j)) (snd (bulkCreateAttendance_loop uuids clock k atts results s)) =
     Some (stamped uuids clock (k + j) (atts ! j))"
proof (induction atts arbitrary: k results s j)
  case Nil
  then show ?case by simp
next
  case (Cons att rest)
  show ?case
  proof (cases j)
    case 0
    have "\<And>j'. j' < length rest \<Longrightarrow> uuids (Suc k + j') \<noteq> uuids k"
    proof
      fix j' assume "j' < length rest" and eq: "uuids (Suc k + j') = uuids k"
      with Cons.prems(1) have "Suc k + j' = k"
        by (auto dest!: inj_onD [where x = "Suc k + j'" and y = k])
      then show False by simp
    qed
    then have "getAttendance (uuids k)
        (snd (bulkCreateAttendance_loop uuids clock (Suc k) rest (results @ [fst (createAttendance (uuids k) (clock k) att s)])
           (snd (createAttendance (uuids k) (clock k) att s)))) =
       getAttendance (uuids k) (snd (createAttendance (uuids k) (clock k) att s))"
      by (rule bulk_loop_get_other)
    with 0 show ?thesis
      by (simp add: split_beta createAttendance_get_same fst_createAttendance_stamped)
  next
    case (Suc j')
    have inj: "inj_on uuids {Suc k..<Suc k + length rest}"
      using Cons.prems(1) by (auto intro: inj_on_subset)
    from Cons.IH [OF inj, of j'] Cons.prems(2) Suc show ?thesis
      by (simp add: split_beta)
  qed
qed

text \<open>
  C6. \<open>bulkCreateAttendance\<close> returns one record per input, in input order: the \<open>k\<close>-th is
  the \<open>k\<close>-th input with the identifier and clock reading of pass \<open>k\<close>. The store it leaves
  is the one reached by running \<open>createAttendance\<close> on the inputs from first to last. When
  the identifiers drawn are pairwise different (what \<open>randomUUID\<close> is for), a
  \<open>getAttendance\<close> of each returns the record created for it.
\<close>

theorem bulkCreateAttendance_in_order:
  "(case bulkCreateAttendance uuids clock attendanceList s of (results, s') \<Rightarrow>
      length results = length attendanceList \<and>
      (\<forall>k < length attendanceList.
         results ! k =
           (attendanceList ! k)(''id'' \<mapsto> JStr (uuids k), ''createdAt'' \<mapsto> JDate (clock k))) \<and>
      s' = foldl (\<lambda>st k. snd (createAttendance (uuids k) (clock k) (attendanceList ! k) st)) s
             [0..<length attendanceList] \<and>
      (inj_on uuids {..<length attendanceList} \<longrightarrow>
         (\<forall>k < length attendanceList. getAttendance (uuids k) s' = Some (results ! k))))"
  using bulk_loop_get_new [of uuids 0 attendanceList _ clock "[]" s]
  by (simp add: bulkCreateAttendance_def split_beta bulk_loop_results bulk_loop_store
        atLeast0LessThan stamped_def)


lemma exampleBulkUuids_inj: "inj_on exampleBulkUuids {..<length exampleAttendanceList}"
proof -
  have "{..<length exampleAttendanceList} = {0, 1, 2}"
    by (auto simp: exampleAttendanceList_def)
  then show ?thesis
    by (simp add: exampleBulkUuids_def)
qed

theorem bulkCreateAttendance_in_order_witness:
  "inj_on exampleBulkUuids {..<length exampleAttendanceList} \<and>
   (1::nat) < length exampleAttendanceList \<and>
   fst (bulkCreateAttendance exampleBulkUuids exampleClock exampleAttendanceList exampleStore) ! 1 =
     [''classId'' \<mapsto> JStr ''u4'', ''studentId'' \<mapsto> JStr ''u3'',
      ''date'' \<mapsto> JDate 1730678400000, ''status'' \<mapsto> JStr ''late'',
      ''id'' \<mapsto> JStr ''b1'', ''createdAt'' \<mapsto> JDate 1730592000001] \<and>
   getAttendance ''b1''
       (snd (bulkCreateAttendance exampleBulkUuids exampleClock exampleAttendanceList exampleStore)) =
     Some [''classId'' \<mapsto> JStr ''u4'', ''studentId'' \<mapsto> JStr ''u3'',
           ''date'' \<mapsto> JDate 1730678400000, ''status'' \<mapsto> JStr ''late'',
           ''id'' \<mapsto> JStr ''b1'', ''createdAt'' \<mapsto> JDate 1730592000001]"
proof -
  note t = bulkCreateAttendance_in_order [where uuids = exampleBulkUuids and clock = exampleClock
      and attendanceList = exampleAttendanceList and s = exampleStore, unfolded split_beta]
  have len: "(1::nat) < length exampleAttendanceList"
    by (simp add: exampleAttendanceList_def)
  have r: "fst (bulkCreateAttendance exampleBulkUuids exampleClock exampleAttendanceList exampleStore) ! 1 =
     (exampleAttendanceList ! 1)(''id'' \<mapsto> JStr (exampleBulkUuids 1),
        ''createdAt'' \<mapsto> JDate (exampleClock 1))"
    using t len by blast
  have g: "getAttendance (exampleBulkUuids 1)
       (snd (bulkCreateAttendance exampleBulkUuids exampleClock exampleAttendanceList exampleStore)) =
     Some (fst (bulkCreateAttendance exampleBulkUuids exampleClock exampleAttendanceList exampleStore) ! 1)"
    using t len exampleBulkUuids_inj by blast
  have e: "exampleBulkUuids 1 = ''b1''" "exampleClock 1 = 1730592000001"
    "exampleAttendanceList ! 1 = [''classId'' \<mapsto> JStr ''u4'', ''studentId'' \<mapsto> JStr ''u3'',
       ''date'' \<mapsto> JDate 1730678400000, ''status'' \<mapsto> JStr ''late'']"
    by (simp_all add: exampleBulkUuids_def exampleClock_def exampleAttendanceList_def)
  from r g show ?thesis
    unfolding e using exampleBulkUuids_inj len by simp
qed

section \<open>Printing and reading decimals\<close>














section \<open>Admin dashboard statistics\<close>












text \<open>The same value, by running the model on the roll call.\<close>

lemma avgAttendance_rollCall_evaluated:
  "avgAttendance (getAdminDashboardStats ''2024-11'' rollCallStore) = Fin 75"
  by code_simp








end
